theory Spec2Isabelle
  imports Main "HOL-Library.AList" "HOL-Library.Char_ord" "HOL-Library.List_Lexorder"
begin

section \<open>The WebRTC provider of the video conference application\<close>

text \<open>
  The development embeds the signalling core of the React component \<open>WebRTCProvider\<close>.
  The repository holds two variants of that component:
  \<^verbatim>\<open>src/contexts/webrtc-context.tsx\<close>, at the path the application imports, and
  \<^verbatim>\<open>src/unnamed/part_003\<close>, which adds glare resolution, message consumption and
  the signalling-state guard. A definition without suffix embeds the function of
  \<^verbatim>\<open>src/unnamed/part_003\<close>; where the function of
  \<^verbatim>\<open>src/contexts/webrtc-context.tsx\<close> differs, it is embedded under the same name
  with the suffix \<open>_ctx\<close>.

  Conventions of the embedding.
  \<^item> React state (\<open>useState\<close>) and refs (\<open>useRef\<close>) are the fields of one record
    \<open>state\<close>; a handler reads the fields as they are when it runs and returns the new
    record. The one state variable whose stale value in a closure is embedded is
    \<open>localStream\<close>: a function that reads it takes the value of its closure as the
    argument \<open>closureStream\<close>.
  \<^item> An asynchronous handler runs to completion: every \<open>await\<close> is resolved in place,
    its outcome given by the record \<open>Env\<close>.
  \<^item> Writes to the Firebase relay are appended to the field \<open>sent\<close>; reads of the relay
    (snapshots, \<open>get\<close>) are arguments.
  \<^item> \<open>RTCPeerConnection\<close> objects live in a store \<open>pcHeap\<close> and are named by their
    index, since closures keep references to connections that have left the map
    \<open>peerConnections\<close>.
  \<^item> User ids are strings compared as JavaScript compares them, code unit by code unit
    (Firebase uids are ASCII).
\<close>

subsection \<open>Data\<close>

type_synonym uid = string
type_synonym sdp = string
type_synonym candidate = string

datatype RTCSignalingState =
  Stable | HaveLocalOffer | HaveRemoteOffer | HaveLocalPranswer | HaveRemotePranswer | SigClosed

datatype RTCIceConnectionState =
  IceNew | Checking | Connected | Completed | Disconnected | Failed | IceClosed

datatype ConnectionStatus = StConnecting | StConnected | StDisconnected | StFailed

text \<open>
  An \<open>RTCPeerConnection\<close> together with the variables its handlers close over
  (\<open>peerId\<close>, \<open>roomId\<close>, \<open>initiator\<close> of \<open>createPeerConnection\<close>).
  \<open>iceCalls\<close> lists the candidates \<open>addIceCandidate\<close> was called with,
  \<open>addedCandidates\<close> those the browser accepted.
\<close>

record RTCPeerConnection =
  pcPeer :: uid
  pcRoom :: string
  pcInitiator :: bool
  signalingState :: RTCSignalingState
  iceConnectionState :: RTCIceConnectionState
  localDescription :: "sdp option"
  remoteDescription :: "sdp option"
  iceCalls :: "candidate list"
  addedCandidates :: "candidate list"
  pcTracks :: nat

record Track =
  enabled :: bool
  ended :: bool

record MediaStream =
  videoTracks :: "Track list"
  audioTracks :: "Track list"

record User =
  uid :: uid
  userDisplayName :: "string option"

record Peer =
  peerId :: uid
  peerDisplayName :: string
  peerStream :: "MediaStream option"
  peerConnection :: "nat option"

datatype RecorderState = Inactive | Recording

text \<open>The paths of the relay that the component writes, one constructor per kind of write.\<close>

datatype RelayCmd =
    SetParticipant string uid string
  | RemoveParticipant string uid
  | OnDisconnectRemove string uid
  | SetOffer string uid uid sdp
  | SetAnswer string uid uid sdp
  | PushCandidate string uid uid candidate
  | RemoveOffersOf string uid
  | RemoveOffer string uid uid
  | RemoveAnswersOf string uid
  | RemoveAnswer string uid uid
  | RemoveCandidatesOf string uid
  | RemoveCandidates string uid uid
  | RemoveCandidate string uid uid string

record state =
  user :: "User option"
  localStream :: "MediaStream option"
  peers :: "Peer list"
  isAudioEnabled :: bool
  isVideoEnabled :: bool
  isScreenSharing :: bool
  isRecording :: bool
  currentRoomId :: "string option"
  webRTCError :: "string option"
  selectedVideoDevice :: "string option"
  selectedAudioDevice :: "string option"
  hasVideo :: bool
  hasAudio :: bool
  connectionStatus :: ConnectionStatus
  screenShareStream :: "MediaStream option"
  mediaRecorder :: "RecorderState option"
  peerConnections :: "(uid \<times> nat) list"
  pcHeap :: "RTCPeerConnection list"
  joinAttempted :: bool
  joinAttempts :: nat
  listenersSetup :: bool
  capturedStream :: "MediaStream option"
  timers :: "(uid \<times> sdp \<times> nat) list"
  sent :: "RelayCmd list"

text \<open>
  \<open>listenersSetup\<close> stands for \<open>listenersSetupRef\<close> and for the four unsubscribe refs
  and the interval ref, which \<open>setupWebRTCListeners\<close> and \<open>cleanupWebRTCListeners\<close> set
  and clear together. \<open>capturedStream\<close> is the value the state variable
  \<open>localStream\<close> had in the render whose \<open>setupWebRTCListeners\<close> subscribed the
  listeners: the listeners, their timers and the \<open>createPeerConnection\<close> they call are
  closures of that render and read this value, whatever \<open>setLocalStream\<close> has stored
  since. Only the number of its tracks is read. \<open>timers\<close> holds the retry timers armed
  by the offers listener: the sender, the offer and the connection the callback closes
  over.
  The JavaScript truthiness of a nullable string: \<open>null\<close> and the empty string are falsy.
\<close>

definition truthy :: "string option \<Rightarrow> bool" where
  "truthy x = (case x of None \<Rightarrow> False | Some v \<Rightarrow> v \<noteq> [])"

definition pcAt :: "state \<Rightarrow> nat \<Rightarrow> RTCPeerConnection option" where
  "pcAt s h = (if h < length (pcHeap s) then Some (pcHeap s ! h) else None)"

text \<open>\<open>peerConnections.current[peerId]\<close>: the connection object stored under a key.\<close>

definition lookupPC :: "state \<Rightarrow> uid \<Rightarrow> (nat \<times> RTCPeerConnection) option" where
  "lookupPC s p =
     (case map_of (peerConnections s) p of
        None \<Rightarrow> None
      | Some h \<Rightarrow> (case pcAt s h of None \<Rightarrow> None | Some pc \<Rightarrow> Some (h, pc)))"

text \<open>\<open>Object.values(peerConnections.current)\<close>, in the order of the keys.\<close>

definition pcValues :: "state \<Rightarrow> RTCPeerConnection list" where
  "pcValues s = List.map_filter (\<lambda>(k, h). pcAt s h) (peerConnections s)"

definition setPC :: "nat \<Rightarrow> RTCPeerConnection \<Rightarrow> state \<Rightarrow> state" where
  "setPC h pc s = s\<lparr>pcHeap := (pcHeap s)[h := pc]\<rparr>"

subsection \<open>The browser's RTCPeerConnection\<close>

text \<open>
  The operations of the W3C interface that the component calls, reduced to what the
  component reads back: the signalling state machine of JSEP, the two descriptions and
  the list of candidates. They are the environment, not code of the repository. An
  operation returns \<open>None\<close> where the browser rejects the promise.
\<close>

definition pcClose :: "RTCPeerConnection \<Rightarrow> RTCPeerConnection" where
  "pcClose pc = pc\<lparr>signalingState := SigClosed, iceConnectionState := IceClosed\<rparr>"

definition pcLive :: "RTCPeerConnection \<Rightarrow> bool" where
  "pcLive pc = (signalingState pc \<noteq> SigClosed)"

definition setLocalOffer :: "sdp \<Rightarrow> RTCPeerConnection \<Rightarrow> RTCPeerConnection option" where
  "setLocalOffer d pc =
     (if signalingState pc = Stable \<or> signalingState pc = HaveLocalOffer
      then Some (pc\<lparr>signalingState := HaveLocalOffer, localDescription := Some d\<rparr>)
      else None)"

definition setLocalRollback :: "RTCPeerConnection \<Rightarrow> RTCPeerConnection option" where
  "setLocalRollback pc =
     (if signalingState pc = HaveLocalOffer
      then Some (pc\<lparr>signalingState := Stable, localDescription := None\<rparr>)
      else None)"

definition setRemoteOffer :: "sdp \<Rightarrow> RTCPeerConnection \<Rightarrow> RTCPeerConnection option" where
  "setRemoteOffer d pc =
     (if signalingState pc = Stable \<or> signalingState pc = HaveRemoteOffer
      then Some (pc\<lparr>signalingState := HaveRemoteOffer, remoteDescription := Some d\<rparr>)
      else None)"

definition setLocalAnswer :: "sdp \<Rightarrow> RTCPeerConnection \<Rightarrow> RTCPeerConnection option" where
  "setLocalAnswer d pc =
     (if signalingState pc = HaveRemoteOffer \<or> signalingState pc = HaveLocalPranswer
      then Some (pc\<lparr>signalingState := Stable, localDescription := Some d\<rparr>)
      else None)"

definition setRemoteAnswer :: "sdp \<Rightarrow> RTCPeerConnection \<Rightarrow> RTCPeerConnection option" where
  "setRemoteAnswer d pc =
     (if signalingState pc = HaveLocalOffer \<or> signalingState pc = HaveRemotePranswer
      then Some (pc\<lparr>signalingState := Stable, remoteDescription := Some d\<rparr>)
      else None)"

definition addIceCandidate :: "candidate \<Rightarrow> RTCPeerConnection \<Rightarrow> RTCPeerConnection option" where
  "addIceCandidate c pc =
     (if signalingState pc \<noteq> SigClosed \<and> remoteDescription pc \<noteq> None
      then Some (pc\<lparr>addedCandidates := addedCandidates pc @ [c]\<rparr>)
      else None)"

text \<open>
  The outcomes of the awaited operations of one handler run. A flag that is \<open>False\<close>
  makes the operation reject although the state machine would allow it;
  \<open>createOfferSdp\<close> and \<open>createAnswerSdp\<close> are the descriptions the browser produces
  (\<open>None\<close>: the promise rejects); \<open>errorIsSerious\<close> says whether the text of a rejected
  \<open>setRemoteDescription\<close> contains one of the two phrases the answers listener looks for,
  \<open>bundleError\<close> whether the text of a failed offer contains "no BUNDLE group",
  \<open>iceErrorMinor\<close> whether the text of a rejected \<open>addIceCandidate\<close> makes the
  candidates listener treat it as non-critical;
  \<open>relayErrorMessage\<close> is the message of a rejected relay write;
  \<open>getUserMedia\<close> gives the result of the n-th call of a run.
\<close>

datatype TrackConstraint = NoTrack | AnyDevice | ExactDevice string

record Env =
  ctorOk :: bool
  rollbackOk :: bool
  setRemoteOk :: bool
  setLocalOk :: bool
  createOfferSdp :: "sdp option"
  createAnswerSdp :: "sdp option"
  addIceOk :: bool
  relayOk :: bool
  errorIsSerious :: bool
  bundleError :: bool
  iceErrorMinor :: bool
  relayErrorMessage :: string
  getUserMedia :: "nat \<Rightarrow> TrackConstraint \<Rightarrow> TrackConstraint \<Rightarrow> MediaStream option"

definition createOffer :: "Env \<Rightarrow> RTCPeerConnection \<Rightarrow> sdp option" where
  "createOffer env pc = (if pcLive pc then createOfferSdp env else None)"

definition createAnswer :: "Env \<Rightarrow> RTCPeerConnection \<Rightarrow> sdp option" where
  "createAnswer env pc =
     (if signalingState pc = HaveRemoteOffer \<or> signalingState pc = HaveLocalPranswer
      then createAnswerSdp env else None)"

subsection \<open>The relay\<close>

text \<open>
  The contents of one room of the Firebase database, as a snapshot delivers them:
  \<open>participants/{uid}\<close> (the display name), \<open>offers/{from}/{to}\<close>,
  \<open>answers/{from}/{to}\<close> and \<open>candidates/{from}/{to}/{pushId}\<close>. A node without
  children does not exist, so \<open>snapshot.exists()\<close> is non-emptiness.
\<close>

record Relay =
  participants :: "(uid \<times> string) list"
  offers :: "(uid \<times> (uid \<times> sdp) list) list"
  answers :: "(uid \<times> (uid \<times> sdp) list) list"
  candidates :: "(uid \<times> (uid \<times> (string \<times> candidate) list) list) list"

record Room =
  roomIdent :: string
  roomName :: string

definition send :: "RelayCmd list \<Rightarrow> state \<Rightarrow> state" where
  "send cs s = s\<lparr>sent := sent s @ cs\<rparr>"

text \<open>
  \<open>cleanupSignalingData\<close> (part_003 lines 326-395). The whole body is inside
  \<open>try\<close>/\<open>catch\<close>: when the relay rejects, the first \<open>remove\<close> throws and nothing is
  written.
\<close>

definition cleanupSignalingData :: "Env \<Rightarrow> Relay \<Rightarrow> string \<Rightarrow> uid \<Rightarrow> state \<Rightarrow> state" where
  "cleanupSignalingData env relay roomId userId s =
     (if \<not> relayOk env then s
      else send
        ([RemoveOffersOf roomId userId]
         @ map (\<lambda>(senderId, senderOffers). RemoveOffer roomId senderId userId)
             (filter (\<lambda>(senderId, senderOffers). senderId \<noteq> userId) (offers relay))
         @ [RemoveAnswersOf roomId userId]
         @ map (\<lambda>(senderId, senderAnswers). RemoveAnswer roomId senderId userId)
             (filter (\<lambda>(senderId, senderAnswers). senderId \<noteq> userId) (answers relay))
         @ [RemoveCandidatesOf roomId userId]
         @ map (\<lambda>(senderId, senderCandidates). RemoveCandidates roomId senderId userId)
             (filter (\<lambda>(senderId, senderCandidates). senderId \<noteq> userId \<and> senderCandidates \<noteq> [])
                (candidates relay))) s)"

subsection \<open>Local media\<close>

definition stopTracks :: "MediaStream \<Rightarrow> MediaStream" where
  "stopTracks st =
     st\<lparr>videoTracks := map (\<lambda>t. t\<lparr>ended := True\<rparr>) (videoTracks st),
        audioTracks := map (\<lambda>t. t\<lparr>ended := True\<rparr>) (audioTracks st)\<rparr>"

definition enableTracks :: "bool \<Rightarrow> bool \<Rightarrow> MediaStream \<Rightarrow> MediaStream" where
  "enableTracks v a st =
     st\<lparr>videoTracks := map (\<lambda>t. t\<lparr>enabled := v\<rparr>) (videoTracks st),
        audioTracks := map (\<lambda>t. t\<lparr>enabled := a\<rparr>) (audioTracks st)\<rparr>"

definition trackCount :: "MediaStream \<Rightarrow> nat" where
  "trackCount st = length (videoTracks st) + length (audioTracks st)"

definition deviceConstraint :: "bool \<Rightarrow> string option \<Rightarrow> TrackConstraint" where
  "deviceConstraint wanted selected =
     (if wanted then (if truthy selected then ExactDevice (the selected) else AnyDevice)
      else NoTrack)"

definition accessFailed :: string where
  "accessFailed = ''Failed to access camera and microphone. Please check your permissions.''"

definition mediaFailed :: "state \<Rightarrow> MediaStream option \<times> state" where
  "mediaFailed s =
     (None, s\<lparr>hasVideo := False, hasAudio := False,
        webRTCError := Some accessFailed\<rparr>)"

text \<open>
  \<open>initLocalStream(video, audio)\<close> (part_003 lines 546-646). The number \<open>n\<close> counts the
  calls of \<open>getUserMedia\<close> made so far in the run. When the request with video fails the
  function calls itself for audio only; when a request without video fails it asks once
  more for \<open>{audio: true, video: false}\<close>; then it gives up, sets the error and returns
  \<open>null\<close>.
\<close>

function initLocalStream :: "Env \<Rightarrow> nat \<Rightarrow> bool \<Rightarrow> bool \<Rightarrow> state \<Rightarrow> MediaStream option \<times> state" where
  "initLocalStream env n video audio s =
     (let s1 = s\<lparr>localStream := map_option stopTracks (localStream s)\<rparr> in
      case getUserMedia env n (deviceConstraint audio (selectedAudioDevice s1))
             (deviceConstraint video (selectedVideoDevice s1)) of
        Some got \<Rightarrow>
          (let stream = enableTracks True True got in
           (Some stream,
            s1\<lparr>hasVideo := length (videoTracks stream) > 0,
               hasAudio := length (audioTracks stream) > 0,
               isVideoEnabled := True, isAudioEnabled := True,
               localStream := Some stream\<rparr>))
      | None \<Rightarrow>
          if video then initLocalStream env (Suc n) False True s1
          else if audio then
            (case getUserMedia env (Suc n) AnyDevice NoTrack of
               Some audioOnlyStream \<Rightarrow>
                 (Some audioOnlyStream,
                  s1\<lparr>hasVideo := False, hasAudio := True, isAudioEnabled := True,
                     localStream := Some audioOnlyStream\<rparr>)
             | None \<Rightarrow> mediaFailed s1)
          else mediaFailed s1)"
  by pat_completeness auto
termination
  by (relation "measure (\<lambda>(env, n, video, audio, s). if video then 1 else 0)") auto

declare initLocalStream.simps [simp del]

text \<open>
  \<open>initLocalStream(video, audio)\<close> of webrtc-context.tsx (lines 429-505): there is no
  retry after a failed request with video, the tracks are not enabled and the two
  \<open>enabled\<close> flags are not set.
\<close>

definition initLocalStream_ctx ::
  "Env \<Rightarrow> nat \<Rightarrow> bool \<Rightarrow> bool \<Rightarrow> state \<Rightarrow> MediaStream option \<times> state" where
  "initLocalStream_ctx env n video audio s =
     (let s1 = s\<lparr>localStream := map_option stopTracks (localStream s)\<rparr> in
      case getUserMedia env n (deviceConstraint audio (selectedAudioDevice s1))
             (deviceConstraint video (selectedVideoDevice s1)) of
        Some stream \<Rightarrow>
          (Some stream,
           s1\<lparr>hasVideo := length (videoTracks stream) > 0,
              hasAudio := length (audioTracks stream) > 0,
              localStream := Some stream\<rparr>)
      | None \<Rightarrow>
          if \<not> video then
            (case getUserMedia env (Suc n) AnyDevice NoTrack of
               Some audioOnlyStream \<Rightarrow>
                 (Some audioOnlyStream,
                  s1\<lparr>hasVideo := False, hasAudio := True,
                     localStream := Some audioOnlyStream\<rparr>)
             | None \<Rightarrow> mediaFailed s1)
          else mediaFailed s1)"

subsection \<open>Creating and closing connections\<close>

definition closeAt :: "nat \<Rightarrow> RTCPeerConnection list \<Rightarrow> RTCPeerConnection list" where
  "closeAt h heap = (if h < length heap then heap[h := pcClose (heap ! h)] else heap)"

text \<open>\<open>Object.values(peerConnections.current).forEach((pc) => pc.close())\<close>\<close>

definition closeAll :: "state \<Rightarrow> state" where
  "closeAll s = s\<lparr>pcHeap := fold closeAt (map snd (peerConnections s)) (pcHeap s)\<rparr>"

definition newPC :: "uid \<Rightarrow> string \<Rightarrow> bool \<Rightarrow> RTCPeerConnection" where
  "newPC p roomId initiator =
     \<lparr>pcPeer = p, pcRoom = roomId, pcInitiator = initiator, signalingState = Stable,
      iceConnectionState = IceNew, localDescription = None, remoteDescription = None,
      iceCalls = [], addedCandidates = [], pcTracks = 0\<rparr>"

text \<open>
  The attachment of the local tracks in \<open>createPeerConnection\<close> (part_003 lines 1090-1132).
  \<open>localStream\<close> is the variable of the closure, \<open>closureStream\<close>. When it holds a
  stream with tracks, these are added to the connection. Otherwise \<open>initLocalStream()\<close>
  of the same closure is called: it sees \<open>closureStream\<close> as the local stream (null,
  or without tracks, so that it stops nothing), and what it obtains it stores with
  \<open>setLocalStream\<close> and adds to the connection; when it obtains nothing,
  \<open>setLocalStream\<close> is not called, so the state keeps its stream, the error is set and
  \<open>joinAttemptedRef\<close> is cleared.
\<close>

definition attachLocalTracks :: "Env \<Rightarrow> MediaStream option \<Rightarrow> nat \<Rightarrow> state \<Rightarrow> state" where
  "attachLocalTracks env closureStream h s =
     (if (case closureStream of Some st \<Rightarrow> trackCount st > 0 | None \<Rightarrow> False)
      then s\<lparr>pcHeap := (pcHeap s)[h := (pcHeap s ! h)
                \<lparr>pcTracks := (case closureStream of Some st \<Rightarrow> trackCount st | None \<Rightarrow> 0)\<rparr>]\<rparr>
      else
        (case initLocalStream env 0 True True (s\<lparr>localStream := closureStream\<rparr>) of
           (Some stream, s1) \<Rightarrow>
             s1\<lparr>pcHeap := (pcHeap s1)[h := (pcHeap s1 ! h)\<lparr>pcTracks := trackCount stream\<rparr>]\<rparr>
         | (None, s1) \<Rightarrow>
             s1\<lparr>localStream := localStream s,
                webRTCError := Some ''Failed to initialize local stream'',
                joinAttempted := False\<rparr>))"

text \<open>
  The same in webrtc-context.tsx (lines 866-891): the tracks of a closure stream are added
  whatever their number; without one, \<open>initLocalStream()\<close> is called and a \<open>null\<close>
  result adds nothing (the error is the one \<open>initLocalStream\<close> has set).
\<close>

definition attachLocalTracks_ctx :: "Env \<Rightarrow> MediaStream option \<Rightarrow> nat \<Rightarrow> state \<Rightarrow> state" where
  "attachLocalTracks_ctx env closureStream h s =
     (case closureStream of
        Some st \<Rightarrow>
          s\<lparr>pcHeap := (pcHeap s)[h := (pcHeap s ! h)\<lparr>pcTracks := trackCount st\<rparr>]\<rparr>
      | None \<Rightarrow>
          (case initLocalStream_ctx env 0 True True (s\<lparr>localStream := None\<rparr>) of
             (Some stream, s1) \<Rightarrow>
               s1\<lparr>pcHeap := (pcHeap s1)[h := (pcHeap s1 ! h)\<lparr>pcTracks := trackCount stream\<rparr>]\<rparr>
           | (None, s1) \<Rightarrow> s1\<lparr>localStream := localStream s\<rparr>))"

text \<open>
  \<open>createPeerConnection(peerId, roomId, initiator)\<close> (part_003 lines 981-1371). It
  returns \<open>null\<close> without touching anything when there is no user or no room id. An
  existing connection under \<open>peerId\<close> is closed and deleted from the map; then the new
  connection is constructed and stored under \<open>peerId\<close>. When the constructor throws, the
  error is set and \<open>null\<close> is returned (the old connection stays closed and deleted).
\<close>

definition createPeerConnection ::
  "Env \<Rightarrow> MediaStream option \<Rightarrow> uid \<Rightarrow> string \<Rightarrow> bool \<Rightarrow> state \<Rightarrow> nat option \<times> state" where
  "createPeerConnection env closureStream p roomId initiator s =
     (if user s = None \<or> roomId = [] then (None, s)
      else
        (let s1 = (case map_of (peerConnections s) p of
                     Some old \<Rightarrow>
                       s\<lparr>pcHeap := closeAt old (pcHeap s),
                          peerConnections := AList.delete p (peerConnections s)\<rparr>
                   | None \<Rightarrow> s)
         in if \<not> ctorOk env
            then (None, s1\<lparr>webRTCError := Some ''Failed to create peer connection. Please try again.''\<rparr>)
            else
              (let h = length (pcHeap s1);
                   s2 = s1\<lparr>pcHeap := pcHeap s1 @ [newPC p roomId initiator],
                           peerConnections := AList.update p h (peerConnections s1)\<rparr>
               in (Some h, attachLocalTracks env closureStream h s2))))"

text \<open>
  \<open>createPeerConnection\<close> of webrtc-context.tsx (lines 838-1050): an existing
  connection makes the function return at once (its comment says "close it"), and the
  constructor is not guarded.
\<close>

definition createPeerConnection_ctx ::
  "Env \<Rightarrow> MediaStream option \<Rightarrow> uid \<Rightarrow> string \<Rightarrow> bool \<Rightarrow> state \<Rightarrow> nat option \<times> state" where
  "createPeerConnection_ctx env closureStream p roomId initiator s =
     (if user s = None \<or> roomId = [] then (None, s)
      else if map_of (peerConnections s) p \<noteq> None then (None, s)
      else
        (let h = length (pcHeap s);
             s2 = s\<lparr>pcHeap := pcHeap s @ [newPC p roomId initiator],
                    peerConnections := AList.update p h (peerConnections s)\<rparr>
         in (Some h, attachLocalTracks_ctx env closureStream h s2)))"

subsection \<open>Joining and leaving a room\<close>

text \<open>\<open>cleanupWebRTCListeners\<close> (part_003 lines 1940-1969).\<close>

definition cleanupWebRTCListeners :: "state \<Rightarrow> state" where
  "cleanupWebRTCListeners s = s\<lparr>listenersSetup := False\<rparr>"

text \<open>
  The frame of \<open>setupWebRTCListeners\<close> (part_003 lines 1374-1937): the guard, the cleanup
  of listeners that are already set up, and the flag. The listeners it subscribes are
  the functions \<open>participantsListener\<close>, \<open>offersListener\<close>, \<open>answersListener\<close>,
  \<open>candidatesListener\<close> and \<open>connectionCheck\<close> of this theory; they are closures of
  the render that calls, whose \<open>localStream\<close> is \<open>closureStream\<close>.
\<close>

definition setupWebRTCListeners ::
  "MediaStream option \<Rightarrow> string \<Rightarrow> Room option \<Rightarrow> state \<Rightarrow> state" where
  "setupWebRTCListeners closureStream roomId currentRoom s =
     (if user s = None \<or> roomId = [] \<or> currentRoom = None then s
      else (if listenersSetup s then cleanupWebRTCListeners s else s)
             \<lparr>listenersSetup := True, capturedStream := closureStream\<rparr>)"

definition orAnonymous :: "string \<Rightarrow> string" where
  "orAnonymous name = (if name = [] then ''Anonymous'' else name)"

text \<open>The functional update of \<open>setPeers\<close> that adds a peer unless its id is present.\<close>

definition addPeer :: "uid \<Rightarrow> string \<Rightarrow> Peer list \<Rightarrow> Peer list" where
  "addPeer p name prevPeers =
     (if p \<in> set (map peerId prevPeers) then prevPeers
      else prevPeers @ [\<lparr>peerId = p, peerDisplayName = name, peerStream = None,
                         peerConnection = None\<rparr>])"

text \<open>
  \<open>createOffer\<close>, \<open>setLocalDescription(offer)\<close> and the write of the offer, as
  \<open>joinRoom\<close> and \<open>onnegotiationneeded\<close> chain them. The flag of the result is \<open>False\<close>
  when one of the three threw; what was done before the throw stays done.
\<close>

definition sendOffer :: "Env \<Rightarrow> string \<Rightarrow> uid \<Rightarrow> uid \<Rightarrow> nat \<Rightarrow> state \<Rightarrow> bool \<times> state" where
  "sendOffer env roomId me p h s =
     (case pcAt s h of
        None \<Rightarrow> (False, s)
      | Some pc \<Rightarrow>
          (case createOffer env pc of
             None \<Rightarrow> (False, s)
           | Some offer \<Rightarrow>
               (case (if setLocalOk env then setLocalOffer offer pc else None) of
                  None \<Rightarrow> (False, s)
                | Some pc' \<Rightarrow>
                    if relayOk env
                    then (True, send [SetOffer roomId me p offer] (setPC h pc' s))
                    else (False, setPC h pc' s))))"

subsection \<open>The handlers of a connection\<close>

definition negotiationFailed :: string where
  "negotiationFailed = ''Failed to negotiate connection. Please try again.''"

text \<open>
  \<open>peerConnection.onnegotiationneeded\<close> for the connection \<open>h\<close> (part_003 lines
  1268-1298): only the initiator acts, and only when the signalling state is stable.
\<close>

definition onnegotiationneeded :: "Env \<Rightarrow> nat \<Rightarrow> state \<Rightarrow> state" where
  "onnegotiationneeded env h s =
     (case (pcAt s h, user s) of
        (Some pc, Some u) \<Rightarrow>
          if pcInitiator pc \<and> pcRoom pc \<noteq> [] then
            (if signalingState pc \<noteq> Stable then s
             else
               (case sendOffer env (pcRoom pc) (uid u) (pcPeer pc) h s of
                  (True, s1) \<Rightarrow> s1
                | (False, s1) \<Rightarrow> s1\<lparr>webRTCError := Some negotiationFailed\<rparr>))
          else s
      | _ \<Rightarrow> s)"


subsection \<open>The listeners\<close>

text \<open>
  The participants listener of \<open>setupWebRTCListeners\<close> (part_003 lines 1394-1455,
  webrtc-context.tsx lines 1073-1134). The snapshot is the list of the entries of
  \<open>participants\<close>; an empty list is a snapshot that does not exist.
\<close>

definition addParticipant :: "Env \<Rightarrow> string \<Rightarrow> uid \<Rightarrow> uid \<times> string \<Rightarrow> state \<Rightarrow> state" where
  "addParticipant env roomId me = (\<lambda>(p, name) s.
     if p \<noteq> me \<and> map_of (peerConnections s) p = None
     then snd (createPeerConnection env (capturedStream s) p roomId True
                 (s\<lparr>peers := addPeer p name (peers s)\<rparr>))
     else s)"

definition dropConnection :: "uid list \<Rightarrow> uid \<Rightarrow> state \<Rightarrow> state" where
  "dropConnection present p s =
     (if p \<notin> set present then
        (case map_of (peerConnections s) p of
           Some h \<Rightarrow> s\<lparr>pcHeap := closeAt h (pcHeap s),
                        peerConnections := AList.delete p (peerConnections s)\<rparr>
         | None \<Rightarrow> s)
      else s)"

definition participantsListener :: "Env \<Rightarrow> string \<Rightarrow> (uid \<times> string) list \<Rightarrow> state \<Rightarrow> state" where
  "participantsListener env roomId snapshot s =
     (case user s of
        None \<Rightarrow> s
      | Some u \<Rightarrow>
          if snapshot = [] then s
          else
            (let s1 = fold (addParticipant env roomId (uid u)) snapshot s;
                 s2 = s1\<lparr>peers := filter (\<lambda>peer. peerId peer \<in> set (map fst snapshot)) (peers s1)\<rparr>
             in fold (dropConnection (map fst snapshot)) (map fst (peerConnections s2)) s2))"

definition offerFailed :: string where
  "offerFailed = ''Failed to respond to connection offer. Please try again.''"

text \<open>
  \<open>processOffer(peerConnection, senderId, offer)\<close> (part_003 lines 1659-1704): the remote
  description is set, the answer is created, set as local description and written to
  \<open>answers/{me}/{senderId}\<close>. The offer itself is not removed from the relay.
\<close>

definition processOffer :: "Env \<Rightarrow> string \<Rightarrow> uid \<Rightarrow> uid \<Rightarrow> sdp \<Rightarrow> nat \<Rightarrow> state \<Rightarrow> state" where
  "processOffer env roomId me senderId offer h s =
     (case pcAt s h of
        None \<Rightarrow> s
      | Some pc \<Rightarrow>
          (case (if setRemoteOk env then setRemoteOffer offer pc else None) of
             None \<Rightarrow> s\<lparr>webRTCError := Some offerFailed\<rparr>
           | Some pc1 \<Rightarrow>
               (let s1 = setPC h pc1 s in
                case createAnswer env pc1 of
                  None \<Rightarrow> s1\<lparr>webRTCError := Some offerFailed\<rparr>
                | Some answer \<Rightarrow>
                    (case (if setLocalOk env then setLocalAnswer answer pc1 else None) of
                       None \<Rightarrow> s1\<lparr>webRTCError := Some offerFailed\<rparr>
                     | Some pc2 \<Rightarrow>
                         (let s2 = setPC h pc2 s1 in
                          if relayOk env then send [SetAnswer roomId me senderId answer] s2
                          else s2\<lparr>webRTCError := Some offerFailed\<rparr>)))))"

text \<open>
  The body of the offers listener for one offer addressed to this user (part_003 lines
  1481-1641). The connection under \<open>senderId\<close> is used, or created as non-initiator.
  In state have-local-offer (glare) the user with the greater id returns without doing
  anything; the other one rolls its offer back and processes the incoming offer, or,
  when the rollback is rejected, closes the connection, creates a new one and processes
  the offer on that. In any other state than stable a retry timer is armed. (The test
  \<open>instanceof RTCPeerConnection\<close> holds for every entry of the map.)
\<close>

definition offerStep :: "Env \<Rightarrow> string \<Rightarrow> uid \<Rightarrow> uid \<Rightarrow> sdp \<Rightarrow> state \<Rightarrow> state" where
  "offerStep env roomId me senderId offer s =
     (case (case map_of (peerConnections s) senderId of
              Some h \<Rightarrow> (Some h, s)
            | None \<Rightarrow> createPeerConnection env (capturedStream s) senderId roomId False s) of
        (None, s1) \<Rightarrow> s1
      | (Some h, s1) \<Rightarrow>
          (case pcAt s1 h of
             None \<Rightarrow> s1
           | Some pc \<Rightarrow>
               if signalingState pc = HaveLocalOffer then
                 (if me > senderId then s1
                  else
                    (case (if rollbackOk env then setLocalRollback pc else None) of
                       Some pc' \<Rightarrow> processOffer env roomId me senderId offer h (setPC h pc' s1)
                     | None \<Rightarrow>
                         (case createPeerConnection env (capturedStream s1) senderId roomId False
                                 (s1\<lparr>pcHeap := closeAt h (pcHeap s1),
                                     peerConnections := AList.delete senderId (peerConnections s1)\<rparr>) of
                            (None, s2) \<Rightarrow> s2
                          | (Some h', s2) \<Rightarrow> processOffer env roomId me senderId offer h' s2)))
               else if signalingState pc \<noteq> Stable
               then s1\<lparr>timers := timers s1 @ [(senderId, offer, h)]\<rparr>
               else processOffer env roomId me senderId offer h s1))"

text \<open>
  The callback of the retry timer (part_003 lines 1602-1635), one second after it was
  armed: when the connection it closed over is still not stable, that connection is
  closed, the entry of the map under \<open>senderId\<close> is deleted, a new connection is
  created and the offer is processed on it. The first timer of the list fires.
\<close>

definition offerTimerFired :: "Env \<Rightarrow> string \<Rightarrow> state \<Rightarrow> state" where
  "offerTimerFired env roomId s =
     (case (timers s, user s) of
        ((senderId, offer, h) # rest, Some u) \<Rightarrow>
          (let s0 = s\<lparr>timers := rest\<rparr> in
           case pcAt s0 h of
             None \<Rightarrow> s0
           | Some pc \<Rightarrow>
               if signalingState pc \<noteq> Stable then
                 (case createPeerConnection env (capturedStream s0) senderId roomId False
                         (s0\<lparr>pcHeap := closeAt h (pcHeap s0),
                             peerConnections := AList.delete senderId (peerConnections s0)\<rparr>) of
                    (None, s1) \<Rightarrow> s1
                  | (Some h', s1) \<Rightarrow> processOffer env roomId (uid u) senderId offer h' s1)
               else s0)
      | _ \<Rightarrow> s)"

text \<open>
  The offers listener (part_003 lines 1468-1655). The snapshot lists, per sender, the
  offers by receiver.
\<close>

definition offersListener ::
  "Env \<Rightarrow> string \<Rightarrow> (uid \<times> (uid \<times> sdp) list) list \<Rightarrow> state \<Rightarrow> state" where
  "offersListener env roomId snapshot s =
     (case user s of
        None \<Rightarrow> s
      | Some u \<Rightarrow>
          fold (\<lambda>(senderId, senderOffers) s'.
                  if senderId \<noteq> uid u
                  then fold (\<lambda>(receiverId, offer) s''.
                               if receiverId = uid u
                               then offerStep env roomId (uid u) senderId offer s''
                               else s'') senderOffers s'
                  else s') snapshot s)"

text \<open>
  The variant of webrtc-context.tsx (lines 1147-1216): an offer that finds the
  connection in any state but stable is skipped; there is no glare resolution.
\<close>

definition offerStep_ctx :: "Env \<Rightarrow> string \<Rightarrow> uid \<Rightarrow> uid \<Rightarrow> sdp \<Rightarrow> state \<Rightarrow> state" where
  "offerStep_ctx env roomId me senderId offer s =
     (case (case map_of (peerConnections s) senderId of
              Some h \<Rightarrow> (Some h, s)
            | None \<Rightarrow> createPeerConnection_ctx env (capturedStream s) senderId roomId False s) of
        (None, s1) \<Rightarrow> s1
      | (Some h, s1) \<Rightarrow>
          (case pcAt s1 h of
             None \<Rightarrow> s1
           | Some pc \<Rightarrow>
               if signalingState pc \<noteq> Stable then s1
               else processOffer env roomId me senderId offer h s1))"

definition connectFailed :: string where
  "connectFailed = ''Failed to establish connection. Please try again.''"

text \<open>
  The body of the answers listener for one answer addressed to this user (part_003 lines
  1720-1797). The answer is applied only in state have-local-offer and is then removed
  from the relay. When \<open>setRemoteDescription\<close> is rejected with one of the two texts the
  listener looks for, the connection is closed and created again as initiator.
\<close>

definition answerStep :: "Env \<Rightarrow> string \<Rightarrow> uid \<Rightarrow> uid \<Rightarrow> sdp \<Rightarrow> state \<Rightarrow> state" where
  "answerStep env roomId me senderId answer s =
     (case lookupPC s senderId of
        None \<Rightarrow> s
      | Some (h, pc) \<Rightarrow>
          if signalingState pc = HaveLocalOffer then
            (case (if setRemoteOk env then setRemoteAnswer answer pc else None) of
               Some pc' \<Rightarrow>
                 if relayOk env
                 then send [RemoveAnswer roomId senderId me] (setPC h pc' s)
                 else (setPC h pc' s)\<lparr>webRTCError := Some connectFailed\<rparr>
             | None \<Rightarrow>
                 (let s1 = s\<lparr>webRTCError := Some connectFailed\<rparr> in
                  if errorIsSerious env
                  then snd (createPeerConnection env (capturedStream s1) senderId roomId True
                              (s1\<lparr>pcHeap := closeAt h (pcHeap s1),
                                  peerConnections := AList.delete senderId (peerConnections s1)\<rparr>))
                  else s1))
          else s)"

definition answersListener ::
  "Env \<Rightarrow> string \<Rightarrow> (uid \<times> (uid \<times> sdp) list) list \<Rightarrow> state \<Rightarrow> state" where
  "answersListener env roomId snapshot s =
     (case user s of
        None \<Rightarrow> s
      | Some u \<Rightarrow>
          fold (\<lambda>(senderId, senderAnswers) s'.
                  fold (\<lambda>(receiverId, answer) s''.
                          if receiverId = uid u
                          then answerStep env roomId (uid u) senderId answer s''
                          else s'') senderAnswers s') snapshot s)"

definition connectionIssue :: string where
  "connectionIssue = ''Connection issue. Try reconnecting if video doesn't appear.''"

text \<open>
  The body of the candidates listener for one candidate (part_003 lines 1831-1886). The
  connection \<open>h\<close> was looked up before the loop over the candidates. A candidate is
  skipped while the connection has no remote description. Otherwise \<open>addIceCandidate\<close>
  is called and the first entry of the snapshot whose value equals the candidate (as
  JSON text) is removed from the relay.
\<close>

definition candidateStep ::
  "Env \<Rightarrow> string \<Rightarrow> uid \<Rightarrow> uid \<Rightarrow> (string \<times> candidate) list \<Rightarrow> nat \<Rightarrow> candidate \<Rightarrow> state \<Rightarrow> state" where
  "candidateStep env roomId senderId receiverId receiverCandidates h c s =
     (case pcAt s h of
        None \<Rightarrow> s
      | Some pc \<Rightarrow>
          if remoteDescription pc = None then s
          else
            (let called = pc\<lparr>iceCalls := iceCalls pc @ [c]\<rparr> in
             case (if addIceOk env then addIceCandidate c called else None) of
               None \<Rightarrow>
                 (if iceErrorMinor env then setPC h called s
                  else (setPC h called s)\<lparr>webRTCError := Some connectionIssue\<rparr>)
             | Some pc' \<Rightarrow>
                 (case find (\<lambda>(key, value). value = c) receiverCandidates of
                    None \<Rightarrow> setPC h pc' s
                  | Some (candidateKey, value) \<Rightarrow>
                      if relayOk env
                      then send [RemoveCandidate roomId senderId receiverId candidateKey]
                             (setPC h pc' s)
                      else (setPC h pc' s)\<lparr>webRTCError := Some connectionIssue\<rparr>)))"

definition candidatesListener ::
  "Env \<Rightarrow> string \<Rightarrow> (uid \<times> (uid \<times> (string \<times> candidate) list) list) list \<Rightarrow> state \<Rightarrow> state" where
  "candidatesListener env roomId snapshot s =
     (case user s of
        None \<Rightarrow> s
      | Some u \<Rightarrow>
          fold (\<lambda>(senderId, senderCandidates) s'.
                  fold (\<lambda>(receiverId, receiverCandidates) s''.
                          if receiverId = uid u then
                            (case map_of (peerConnections s'') senderId of
                               None \<Rightarrow> s''
                             | Some h \<Rightarrow>
                                 fold (candidateStep env roomId senderId receiverId
                                         receiverCandidates h)
                                   (map snd receiverCandidates) s'')
                          else s'') senderCandidates s') snapshot s)"

text \<open>
  The variant of webrtc-context.tsx (lines 1289-1329): every candidate is handed to
  \<open>addIceCandidate\<close>, whatever the remote description, and nothing is removed.
\<close>

definition candidateStep_ctx :: "Env \<Rightarrow> nat \<Rightarrow> candidate \<Rightarrow> state \<Rightarrow> state" where
  "candidateStep_ctx env h c s =
     (case pcAt s h of
        None \<Rightarrow> s
      | Some pc \<Rightarrow>
          (let called = pc\<lparr>iceCalls := iceCalls pc @ [c]\<rparr> in
           case (if addIceOk env then addIceCandidate c called else None) of
             None \<Rightarrow> (setPC h called s)\<lparr>webRTCError := Some connectFailed\<rparr>
           | Some pc' \<Rightarrow> setPC h pc' s))"

subsection \<open>The body of joinRoom\<close>

text \<open>
  One turn of the loop of \<open>joinRoom\<close> over the other participants (part_003 lines
  2093-2201): the connection is created with this side as initiator and the offer is sent;
  when that throws with the BUNDLE error, the connection is closed, deleted and replaced
  by one constructed with the simpler configuration (which gets no event handlers), whose
  outcomes are those of \<open>envRetry\<close>. \<open>closureStream\<close> is the \<open>localStream\<close> of the
  render that made this \<open>joinRoom\<close>: it is what \<open>createPeerConnection\<close> sees, and
  its tracks, if it is not null, are what the replacement connection gets.
\<close>

definition joinConnect ::
  "Env \<Rightarrow> Env \<Rightarrow> MediaStream option \<Rightarrow> string \<Rightarrow> uid \<Rightarrow> uid \<Rightarrow> state \<Rightarrow> state" where
  "joinConnect env envRetry closureStream roomId me p s =
     (case createPeerConnection env closureStream p roomId True s of
        (None, s1) \<Rightarrow> s1
      | (Some h, s1) \<Rightarrow>
          (case sendOffer env roomId me p h s1 of
             (True, s2) \<Rightarrow> s2
           | (False, s2) \<Rightarrow>
               if \<not> bundleError env then s2
               else
                 (let s3 = s2\<lparr>pcHeap := closeAt h (pcHeap s2),
                              peerConnections := AList.delete p (peerConnections s2)\<rparr>
                  in if \<not> ctorOk envRetry then s3
                     else
                       (let h' = length (pcHeap s3);
                            tracks = (case closureStream of None \<Rightarrow> 0 | Some st \<Rightarrow> trackCount st);
                            s4 = s3\<lparr>pcHeap := pcHeap s3 @ [(newPC p roomId False)\<lparr>pcTracks := tracks\<rparr>],
                                    peerConnections := AList.update p h' (peerConnections s3)\<rparr>
                        in snd (sendOffer envRetry roomId me p h' s4)))))"

definition tooManyAttempts :: string where
  "tooManyAttempts = ''Too many join attempts, aborting to prevent infinite loop''"

definition noLocalStream :: string where
  "noLocalStream = ''Failed to initialize local stream''"

text \<open>
  The \<open>try\<close> block of \<open>joinRoom\<close> (part_003 lines 2003-2207). \<open>Inl\<close> is the message of
  the error it throws. The participants read back after the write of the own entry always
  exist; the own entry is skipped by the loops, so the other entries of the relay are
  what the loops see. \<open>joinRoom\<close> is taken to be called from the current render, so
  that the \<open>localStream\<close> of its closure is the one of the state at the call (with its
  tracks re-enabled, since the closure holds the object); a stream that \<open>joinRoom\<close>
  acquires itself is stored by \<open>setLocalStream\<close> and never seen by the closure.
\<close>

definition joinRoomTry ::
  "Env \<Rightarrow> Env \<Rightarrow> Relay \<Rightarrow> string \<Rightarrow> Room option \<Rightarrow> User \<Rightarrow> state \<Rightarrow> (string + unit) \<times> state" where
  "joinRoomTry env envRetry relay roomId currentRoom u s =
     (let s1 = (closeAll s)\<lparr>peerConnections := [], peers := []\<rparr>;
          s2 = cleanupSignalingData env relay roomId (uid u) s1;
          closureStream =
            map_option (enableTracks (isVideoEnabled s2) (isAudioEnabled s2)) (localStream s2);
          (stream, s3) =
            (case localStream s2 of
               None \<Rightarrow> initLocalStream env 0 True True s2
             | Some st \<Rightarrow>
                 (let st' = enableTracks (isVideoEnabled s2) (isAudioEnabled s2) st
                  in (Some st', s2\<lparr>localStream := Some st'\<rparr>)))
      in if stream = None
         then (Inl noLocalStream, s3\<lparr>webRTCError := Some noLocalStream, joinAttempted := False\<rparr>)
         else
           (let s4 = s3\<lparr>currentRoomId := Some roomId\<rparr> in
            if \<not> relayOk env then (Inl (relayErrorMessage env), s4)
            else
              (let s5 = send [SetParticipant roomId (uid u)
                                (if truthy (userDisplayName u) then the (userDisplayName u)
                                 else ''Anonymous''),
                              OnDisconnectRemove roomId (uid u)] s4;
                   others = filter (\<lambda>(p, name). p \<noteq> uid u) (participants relay);
                   s6 = s5\<lparr>peers := fold (\<lambda>(p, name). addPeer p (orAnonymous name)) others (peers s5)\<rparr>;
                   s7 = setupWebRTCListeners closureStream roomId currentRoom s6;
                   s8 = fold (\<lambda>(p, name). joinConnect env envRetry closureStream roomId (uid u) p)
                          others s7
               in (Inr (), s8\<lparr>connectionStatus := StConnected, joinAttempts := 0\<rparr>))))"

text \<open>
  \<open>joinRoom(roomId, currentRoom)\<close> (part_003 lines 1972-2218; the guards and the counter
  are the same in webrtc-context.tsx lines 1406-1429). \<open>Inl\<close> is a thrown error.
\<close>

definition joinRoom ::
  "Env \<Rightarrow> Env \<Rightarrow> Relay \<Rightarrow> string \<Rightarrow> Room option \<Rightarrow> state \<Rightarrow> (string + unit) \<times> state" where
  "joinRoom env envRetry relay roomId currentRoom s =
     (case user s of
        None \<Rightarrow>
          (Inl ''Cannot join room: User not authenticated'',
           s\<lparr>webRTCError := Some ''Cannot join room: User not authenticated''\<rparr>)
      | Some u \<Rightarrow>
          if joinAttempted s \<and> currentRoomId s = Some roomId then (Inr (), s)
          else
            (let s1 = s\<lparr>joinAttempts := joinAttempts s + 1\<rparr> in
             if joinAttempts s1 > 3
             then (Inl tooManyAttempts,
                   s1\<lparr>webRTCError := Some tooManyAttempts, joinAttempts := 0\<rparr>)
             else
               (case joinRoomTry env envRetry relay roomId currentRoom u
                       (s1\<lparr>joinAttempted := True, webRTCError := None,
                           connectionStatus := StConnecting\<rparr>) of
                  (Inl e, s2) \<Rightarrow>
                    (Inl e, s2\<lparr>webRTCError := Some e, connectionStatus := StFailed,
                               joinAttempted := False\<rparr>)
                | (Inr x, s2) \<Rightarrow> (Inr x, s2\<lparr>joinAttempted := False\<rparr>))))"

text \<open>
  \<open>leaveRoom()\<close> (part_003 lines 2221-2282; the guard is the same in webrtc-context.tsx
  line 1495). When the relay rejects, \<open>remove(participantRef)\<close> throws and the
  \<open>catch\<close> block resets the room id, the status and the two join refs only.
\<close>

definition leaveRoom :: "Env \<Rightarrow> Relay \<Rightarrow> state \<Rightarrow> state" where
  "leaveRoom env relay s =
     (case (currentRoomId s, user s) of
        (Some roomId, Some u) \<Rightarrow>
          if roomId = [] then s
          else
            (let s1 = cleanupSignalingData env relay roomId (uid u) s in
             if \<not> relayOk env
             then s1\<lparr>currentRoomId := None, connectionStatus := StDisconnected,
                     joinAttempted := False, joinAttempts := 0\<rparr>
             else
               (let s2 = send [RemoveParticipant roomId (uid u)] s1;
                    s3 = cleanupWebRTCListeners s2;
                    s4 = (closeAll s3)\<lparr>peerConnections := [], peers := []\<rparr>;
                    s5 = (if isScreenSharing s4 \<and> screenShareStream s4 \<noteq> None
                          then s4\<lparr>screenShareStream := None\<rparr> else s4);
                    s6 = (if isRecording s5 \<and> mediaRecorder s5 \<noteq> None
                          then s5\<lparr>mediaRecorder := Some Inactive\<rparr> else s5)
                in s6\<lparr>currentRoomId := None, connectionStatus := StDisconnected,
                       joinAttempted := False, joinAttempts := 0\<rparr>))
      | _ \<Rightarrow> s)"

subsection \<open>The periodic connection check\<close>

text \<open>
  The interval callback of \<open>setupWebRTCListeners\<close> (part_003 lines 1906-1933,
  webrtc-context.tsx lines 1340-1367; the two variants agree).
\<close>

definition isConnectedIce :: "RTCPeerConnection \<Rightarrow> bool" where
  "isConnectedIce pc =
     (iceConnectionState pc = Connected \<or> iceConnectionState pc = Completed)"

definition isFailedIce :: "RTCPeerConnection \<Rightarrow> bool" where
  "isFailedIce pc =
     (iceConnectionState pc = Failed \<or> iceConnectionState pc = Disconnected)"

definition connectionCheck :: "state \<Rightarrow> state" where
  "connectionCheck s =
     (let connectedPeers = filter isConnectedIce (pcValues s) in
      if length connectedPeers > 0 then s\<lparr>connectionStatus := StConnected\<rparr>
      else if length (peerConnections s) > 0 then
        (let failedPeers = filter isFailedIce (pcValues s) in
         if length failedPeers > 0 then s\<lparr>connectionStatus := StFailed\<rparr>
         else s\<lparr>connectionStatus := StConnecting\<rparr>)
      else s\<lparr>connectionStatus := StDisconnected\<rparr>)"

text \<open>A connection in a given ICE state, and a state holding the listed connections.\<close>

definition pcWith :: "uid \<Rightarrow> RTCSignalingState \<Rightarrow> RTCIceConnectionState \<Rightarrow> RTCPeerConnection" where
  "pcWith p sg ice =
     \<lparr>pcPeer = p, pcRoom = ''r1'', pcInitiator = True, signalingState = sg,
      iceConnectionState = ice, localDescription = None, remoteDescription = None,
      iceCalls = [], addedCandidates = [], pcTracks = 0\<rparr>"

definition initialState :: state where
  "initialState =
     \<lparr>user = None, localStream = None, peers = [], isAudioEnabled = True,
      isVideoEnabled = True, isScreenSharing = False, isRecording = False,
      currentRoomId = None, webRTCError = None, selectedVideoDevice = None,
      selectedAudioDevice = None, hasVideo = False, hasAudio = False,
      connectionStatus = StDisconnected, screenShareStream = None, mediaRecorder = None,
      peerConnections = [], pcHeap = [], joinAttempted = False, joinAttempts = 0,
      listenersSetup = False, capturedStream = None, timers = [], sent = []\<rparr>"

definition withConnections :: "RTCPeerConnection list \<Rightarrow> state" where
  "withConnections pcs =
     initialState\<lparr>pcHeap := pcs,
       peerConnections := zip (map pcPeer pcs) [0 ..< length pcs]\<rparr>"

subsection \<open>Concrete inputs\<close>

definition alice :: User where
  "alice = \<lparr>uid = ''alice'', userDisplayName = Some ''Alice''\<rparr>"

definition bob :: User where
  "bob = \<lparr>uid = ''bob'', userDisplayName = Some ''Bob''\<rparr>"

definition liveTrack :: Track where
  "liveTrack = \<lparr>enabled = True, ended = False\<rparr>"

text \<open>An environment in which every operation succeeds, and variants of it.\<close>

definition envOk :: Env where
  "envOk =
     \<lparr>ctorOk = True, rollbackOk = True, setRemoteOk = True, setLocalOk = True,
      createOfferSdp = Some ''offer'', createAnswerSdp = Some ''answer'', addIceOk = True,
      relayOk = True, errorIsSerious = False, bundleError = False, iceErrorMinor = False,
      relayErrorMessage = ''PERMISSION_DENIED'',
      getUserMedia = (\<lambda>n a v.
        Some \<lparr>videoTracks = (if v = NoTrack then [] else [liveTrack]),
              audioTracks = (if a = NoTrack then [] else [liveTrack])\<rparr>)\<rparr>"

definition envNoMedia :: Env where
  "envNoMedia = envOk\<lparr>getUserMedia := (\<lambda>n a v. None)\<rparr>"

definition envAudioOnly :: Env where
  "envAudioOnly =
     envOk\<lparr>getUserMedia := (\<lambda>n a v.
       if v = NoTrack then Some \<lparr>videoTracks = [], audioTracks = [liveTrack]\<rparr> else None)\<rparr>"

definition emptyRelay :: Relay where
  "emptyRelay = \<lparr>participants = [], offers = [], answers = [], candidates = []\<rparr>"

definition room1 :: Room where
  "room1 = \<lparr>roomIdent = ''r1'', roomName = ''Room one''\<rparr>"

text \<open>Alice with a connection to Bob on which her own offer is pending.\<close>

definition aliceOffering :: state where
  "aliceOffering =
     initialState\<lparr>user := Some alice, currentRoomId := Some ''r1'',
       peerConnections := [(''bob'', 0)],
       pcHeap := [(newPC ''bob'' ''r1'' True)\<lparr>signalingState := HaveLocalOffer,
                    localDescription := Some ''offer''\<rparr>]\<rparr>"

text \<open>
  Alice with a fresh connection to Bob, and with one on which Bob's offer has been
  answered; candidates from Bob for her.
\<close>

definition aliceAnswered :: state where
  "aliceAnswered =
     initialState\<lparr>user := Some alice, currentRoomId := Some ''r1'',
      peerConnections := [(''bob'', 0)],
      pcHeap := [(newPC ''bob'' ''r1'' False)\<lparr>remoteDescription := Some ''offer'',
                   localDescription := Some ''answer''\<rparr>]\<rparr>"

definition aliceFresh :: state where
  "aliceFresh = initialState\<lparr>user := Some alice, currentRoomId := Some ''r1'',
      peerConnections := [(''bob'', 0)], pcHeap := [newPC ''bob'' ''r1'' True]\<rparr>"

definition bobCandidates :: "(uid \<times> (uid \<times> (string \<times> candidate) list) list) list" where
  "bobCandidates = [(''bob'', [(''alice'', [(''k1'', ''c1''), (''k2'', ''c2'')])])]"

text \<open>
  The connections \<open>added\<close> and the objects \<open>new\<close> that a pass of the participants
  listener appends to the map and to the store: consecutive handles from \<open>base\<close>, each
  a fresh initiator connection to its peer.
\<close>

definition freshFor :: "string \<Rightarrow> (uid \<times> nat) list \<Rightarrow> RTCPeerConnection list \<Rightarrow> nat \<Rightarrow> bool" where
  "freshFor roomId added new base =
     (map snd added = [base ..< base + length new]
      \<and> list_all2 (\<lambda>(p, h) pc. \<exists>n. pc = (newPC p roomId True)\<lparr>pcTracks := n\<rparr>) added new)"

text \<open>
  Alice in room r1 with a camera and microphone stream, alone or connected to Carol. Her
  listeners were subscribed by a \<open>joinRoom\<close> that acquired the stream itself, so their
  closure holds no stream.
\<close>

definition avStream :: MediaStream where
  "avStream = \<lparr>videoTracks = [liveTrack], audioTracks = [liveTrack]\<rparr>"

definition aliceJoined :: state where
  "aliceJoined =
     initialState\<lparr>user := Some alice, localStream := Some avStream, currentRoomId := Some ''r1'',
       listenersSetup := True\<rparr>"

definition carolPeer :: Peer where
  "carolPeer = \<lparr>peerId = ''carol'', peerDisplayName = ''Carol'', peerStream = None,
                 peerConnection = None\<rparr>"

definition aliceWithCarol :: state where
  "aliceWithCarol =
     aliceJoined\<lparr>peers := [carolPeer], peerConnections := [(''carol'', 0)],
       pcHeap := [newPC ''carol'' ''r1'' True]\<rparr>"

definition aliceAndBob :: "(uid \<times> string) list" where
  "aliceAndBob = [(''alice'', ''Alice''), (''bob'', ''Bob'')]"

definition bobOffer :: "(uid \<times> (uid \<times> sdp) list) list" where
  "bobOffer = [(''bob'', [(''alice'', ''offerOfBob'')])]"

subsection \<open>Two clients and the relay\<close>

text \<open>
  A closed system of two clients of one room and the two namespaces of the relay that
  negotiation uses. It is the environment in which the glare resolution is stated, not
  code of the repository. Every write that changes a namespace is delivered, as the new
  value of the namespace, to both subscribed clients; a client receives its events in the
  order of the writes (the relay's guarantee), while the two clients take turns in any
  order. A turn of a client with no pending event does nothing.
\<close>

datatype Event =
    OffersChanged "(uid \<times> (uid \<times> sdp) list) list"
  | AnswersChanged "(uid \<times> (uid \<times> sdp) list) list"

datatype Turn = TurnA | TurnB

record World =
  wA :: state
  wB :: state
  wOffers :: "(uid \<times> (uid \<times> sdp) list) list"
  wAnswers :: "(uid \<times> (uid \<times> sdp) list) list"
  qA :: "Event list"
  qB :: "Event list"

definition setEntry ::
  "uid \<Rightarrow> uid \<Rightarrow> sdp \<Rightarrow> (uid \<times> (uid \<times> sdp) list) list \<Rightarrow> (uid \<times> (uid \<times> sdp) list) list" where
  "setEntry sender receiver d tree =
     AList.update sender
       (AList.update receiver d (case map_of tree sender of None \<Rightarrow> [] | Some m \<Rightarrow> m)) tree"

definition removeEntry ::
  "uid \<Rightarrow> uid \<Rightarrow> (uid \<times> (uid \<times> sdp) list) list \<Rightarrow> (uid \<times> (uid \<times> sdp) list) list" where
  "removeEntry sender receiver tree =
     (case map_of tree sender of
        None \<Rightarrow> tree
      | Some m \<Rightarrow>
          (let m' = AList.delete receiver m
           in if m' = [] then AList.delete sender tree else AList.update sender m' tree))"

text \<open>The effect of one write on the offers and on the answers of the room.\<close>

fun applyOffers ::
  "string \<Rightarrow> RelayCmd \<Rightarrow> (uid \<times> (uid \<times> sdp) list) list \<Rightarrow> (uid \<times> (uid \<times> sdp) list) list" where
  "applyOffers room (SetOffer r sender receiver d) tree =
     (if r = room then setEntry sender receiver d tree else tree)"
| "applyOffers room (RemoveOffer r sender receiver) tree =
     (if r = room then removeEntry sender receiver tree else tree)"
| "applyOffers room (RemoveOffersOf r sender) tree =
     (if r = room then AList.delete sender tree else tree)"
| "applyOffers room c tree = tree"

fun applyAnswers ::
  "string \<Rightarrow> RelayCmd \<Rightarrow> (uid \<times> (uid \<times> sdp) list) list \<Rightarrow> (uid \<times> (uid \<times> sdp) list) list" where
  "applyAnswers room (SetAnswer r sender receiver d) tree =
     (if r = room then setEntry sender receiver d tree else tree)"
| "applyAnswers room (RemoveAnswer r sender receiver) tree =
     (if r = room then removeEntry sender receiver tree else tree)"
| "applyAnswers room (RemoveAnswersOf r sender) tree =
     (if r = room then AList.delete sender tree else tree)"
| "applyAnswers room c tree = tree"

definition publish1 :: "string \<Rightarrow> RelayCmd \<Rightarrow> World \<Rightarrow> World" where
  "publish1 room c w =
     (let os = applyOffers room c (wOffers w);
          as = applyAnswers room c (wAnswers w);
          events = (if os \<noteq> wOffers w then [OffersChanged os] else [])
                   @ (if as \<noteq> wAnswers w then [AnswersChanged as] else [])
      in w\<lparr>wOffers := os, wAnswers := as, qA := qA w @ events, qB := qB w @ events\<rparr>)"

definition publish :: "string \<Rightarrow> RelayCmd list \<Rightarrow> World \<Rightarrow> World" where
  "publish room cs w = fold (publish1 room) cs w"

definition handleEvent :: "Env \<Rightarrow> string \<Rightarrow> Event \<Rightarrow> state \<Rightarrow> state" where
  "handleEvent env room e s =
     (case e of
        OffersChanged snapshot \<Rightarrow> offersListener env room snapshot (s\<lparr>sent := []\<rparr>)
      | AnswersChanged snapshot \<Rightarrow> answersListener env room snapshot (s\<lparr>sent := []\<rparr>))"

definition deliver :: "Env \<Rightarrow> string \<Rightarrow> Turn \<Rightarrow> World \<Rightarrow> World" where
  "deliver env room t w =
     (case t of
        TurnA \<Rightarrow>
          (case qA w of
             [] \<Rightarrow> w
           | e # es \<Rightarrow>
               (let s = handleEvent env room e (wA w)
                in publish room (sent s) (w\<lparr>wA := s\<lparr>sent := []\<rparr>, qA := es\<rparr>)))
      | TurnB \<Rightarrow>
          (case qB w of
             [] \<Rightarrow> w
           | e # es \<Rightarrow>
               (let s = handleEvent env room e (wB w)
                in publish room (sent s) (w\<lparr>wB := s\<lparr>sent := []\<rparr>, qB := es\<rparr>))))"

definition run :: "Env \<Rightarrow> string \<Rightarrow> Turn list \<Rightarrow> World \<Rightarrow> World" where
  "run env room turns w = fold (deliver env room) turns w"

text \<open>
  Glare: each of the two users has a connection to the other on which the own offer is
  pending, both offers are in the relay, and each client has the change of the offers
  still to handle. In the settled world both connections are stable; the first user has
  rolled the own offer back and answered the offer of the second, the second holds that
  answer.
\<close>

definition client :: "string \<Rightarrow> uid \<Rightarrow> uid \<Rightarrow> RTCSignalingState \<Rightarrow> sdp option \<Rightarrow> sdp option \<Rightarrow> state" where
  "client room me other sg loc rem =
     initialState\<lparr>user := Some \<lparr>uid = me, userDisplayName = None\<rparr>,
       currentRoomId := Some room, listenersSetup := True,
       peerConnections := [(other, 0)],
       pcHeap := [(newPC other room True)\<lparr>signalingState := sg, localDescription := loc,
                    remoteDescription := rem\<rparr>]\<rparr>"

definition bothOffers :: "uid \<Rightarrow> uid \<Rightarrow> sdp \<Rightarrow> sdp \<Rightarrow> (uid \<times> (uid \<times> sdp) list) list" where
  "bothOffers a b oa ob = [(a, [(b, oa)]), (b, [(a, ob)])]"

definition glareWorld :: "string \<Rightarrow> uid \<Rightarrow> uid \<Rightarrow> sdp \<Rightarrow> sdp \<Rightarrow> World" where
  "glareWorld room a b oa ob =
     \<lparr>wA = client room a b HaveLocalOffer (Some oa) None,
      wB = client room b a HaveLocalOffer (Some ob) None,
      wOffers = bothOffers a b oa ob, wAnswers = [],
      qA = [OffersChanged (bothOffers a b oa ob)],
      qB = [OffersChanged (bothOffers a b oa ob)]\<rparr>"

definition settledWorld :: "string \<Rightarrow> uid \<Rightarrow> uid \<Rightarrow> sdp \<Rightarrow> sdp \<Rightarrow> sdp \<Rightarrow> World" where
  "settledWorld room a b oa ob answer =
     \<lparr>wA = client room a b Stable (Some answer) (Some ob),
      wB = client room b a Stable (Some ob) (Some answer),
      wOffers = bothOffers a b oa ob, wAnswers = [],
      qA = [], qB = []\<rparr>"

definition rounds :: "Turn list" where
  "rounds = [TurnA, TurnB, TurnA, TurnB, TurnA, TurnB]"

text \<open>
  The worlds between the two, numbered, and the number each turn leads to. They serve the
  proof: every schedule stays among them.
\<close>

definition stageWorld ::
  "string \<Rightarrow> uid \<Rightarrow> uid \<Rightarrow> sdp \<Rightarrow> sdp \<Rightarrow> sdp \<Rightarrow> bool \<Rightarrow> bool \<Rightarrow> Event list \<Rightarrow> Event list \<Rightarrow> World" where
  "stageWorld room a b oa ob answer aDone bDone pendingA pendingB =
     \<lparr>wA = (if aDone then client room a b Stable (Some answer) (Some ob)
             else client room a b HaveLocalOffer (Some oa) None),
      wB = (if bDone then client room b a Stable (Some ob) (Some answer)
             else client room b a HaveLocalOffer (Some ob) None),
      wOffers = bothOffers a b oa ob,
      wAnswers = (if aDone \<and> \<not> bDone then [(a, [(b, answer)])] else []),
      qA = pendingA, qB = pendingB\<rparr>"

definition stage :: "string \<Rightarrow> uid \<Rightarrow> uid \<Rightarrow> sdp \<Rightarrow> sdp \<Rightarrow> sdp \<Rightarrow> nat \<Rightarrow> World" where
  "stage room a b oa ob answer i =
     (let off = OffersChanged (bothOffers a b oa ob);
          n1 = AnswersChanged [(a, [(b, answer)])];
          n0 = AnswersChanged [];
          mk = stageWorld room a b oa ob answer
      in if i = 0 then mk False False [off] [off]
         else if i = 1 then mk True False [n1] [off, n1]
         else if i = 2 then mk False False [off] []
         else if i = 3 then mk True False [] [off, n1]
         else if i = 4 then mk True False [n1] [n1]
         else if i = 5 then mk True False [] [n1]
         else if i = 6 then mk True True [n1, n0] [n0]
         else if i = 7 then mk True True [n0] [n0]
         else if i = 8 then mk True True [n1, n0] []
         else if i = 9 then mk True True [] [n0]
         else if i = 10 then mk True True [n0] []
         else mk True True [] [])"

definition nextStage :: "Turn \<Rightarrow> nat \<Rightarrow> nat" where
  "nextStage t i =
     (case t of
        TurnA \<Rightarrow> [1, 3, 4, 3, 5, 5, 7, 9, 10, 9, 11, 11] ! (min i 11)
      | TurnB \<Rightarrow> [2, 4, 2, 5, 6, 7, 8, 10, 8, 11, 10, 11] ! (min i 11))"

subsection \<open>Live connections\<close>

text \<open>
  \<open>registered\<close>: every connection that is not closed is the entry of the map for its
  peer. \<open>oneLivePerPeer\<close>: no two connections that are not closed have the same peer.
\<close>

definition registered :: "state \<Rightarrow> bool" where
  "registered s =
     (\<forall>i < length (pcHeap s).
        pcLive (pcHeap s ! i) \<longrightarrow> map_of (peerConnections s) (pcPeer (pcHeap s ! i)) = Some i)"

definition oneLivePerPeer :: "state \<Rightarrow> bool" where
  "oneLivePerPeer s =
     (\<forall>i < length (pcHeap s). \<forall>j < length (pcHeap s).
        pcLive (pcHeap s ! i) \<and> pcLive (pcHeap s ! j)
        \<and> pcPeer (pcHeap s ! i) = pcPeer (pcHeap s ! j) \<longrightarrow> i = j)"

text \<open>An environment in which \<open>createAnswer\<close> rejects.\<close>

definition envNoAnswer :: Env where
  "envNoAnswer = envOk\<lparr>createAnswerSdp := None\<rparr>"

text \<open>
  Alice handles Bob's offer while \<open>createAnswer\<close> rejects, which leaves the connection
  in have-remote-offer; two further deliveries of the offers arm two retry timers; then
  both timers fire.
\<close>

definition twoTimers :: state where
  "twoTimers =
     offersListener envOk ''r1'' bobOffer
       (offersListener envOk ''r1'' bobOffer
          (offersListener envNoAnswer ''r1'' bobOffer aliceJoined))"

definition afterTimers :: state where
  "afterTimers = offerTimerFired envOk ''r1'' (offerTimerFired envOk ''r1'' twoTimers)"

subsection \<open>The ICE state handler\<close>

text \<open>
  \<open>peerConnection.oniceconnectionstatechange\<close> for the connection \<open>h\<close> (part_003 lines
  1157-1219), run after the browser has changed \<open>iceConnectionState\<close>. On failed and on
  disconnected the status is set only when every connection of the map is failed or
  disconnected ("don't set to failed unless all connections are failed"). The calls of
  \<open>restartIce\<close> change no field of the embedding.
\<close>

definition oniceconnectionstatechange :: "nat \<Rightarrow> state \<Rightarrow> state" where
  "oniceconnectionstatechange h s =
     (case pcAt s h of
        None \<Rightarrow> s
      | Some pc \<Rightarrow>
          if iceConnectionState pc = Connected \<or> iceConnectionState pc = Completed
          then s\<lparr>connectionStatus := StConnected\<rparr>
          else if iceConnectionState pc = Failed then
            (let allPeersFailed = list_all isFailedIce (pcValues s)
             in if allPeersFailed then s\<lparr>connectionStatus := StFailed\<rparr> else s)
          else if iceConnectionState pc = Disconnected then
            (let allPeersDisconnected = list_all isFailedIce (pcValues s)
             in if allPeersDisconnected then s\<lparr>connectionStatus := StDisconnected\<rparr> else s)
          else s)"

text \<open>
  Two connections while the status is \<open>connecting\<close>: the one to Bob has failed, the one
  to Carol is still checking.
\<close>

definition oneFailedOneChecking :: state where
  "oneFailedOneChecking =
     (withConnections [pcWith ''bob'' Stable Failed, pcWith ''carol'' Stable Checking])
       \<lparr>connectionStatus := StConnecting\<rparr>"

subsection \<open>The listeners of webrtc-context.tsx\<close>

text \<open>
  The offers listener of webrtc-context.tsx (lines 1146-1224) and its candidates listener
  (lines 1289-1329), over the bodies \<open>offerStep_ctx\<close> and \<open>candidateStep_ctx\<close>.
\<close>

definition offersListener_ctx ::
  "Env \<Rightarrow> string \<Rightarrow> (uid \<times> (uid \<times> sdp) list) list \<Rightarrow> state \<Rightarrow> state" where
  "offersListener_ctx env roomId snapshot s =
     (case user s of
        None \<Rightarrow> s
      | Some u \<Rightarrow>
          fold (\<lambda>(senderId, senderOffers) s'.
                  if senderId \<noteq> uid u
                  then fold (\<lambda>(receiverId, offer) s''.
                               if receiverId = uid u
                               then offerStep_ctx env roomId (uid u) senderId offer s''
                               else s'') senderOffers s'
                  else s') snapshot s)"

definition candidatesListener_ctx ::
  "Env \<Rightarrow> string \<Rightarrow> (uid \<times> (uid \<times> (string \<times> candidate) list) list) list \<Rightarrow> state \<Rightarrow> state" where
  "candidatesListener_ctx env roomId snapshot s =
     (case user s of
        None \<Rightarrow> s
      | Some u \<Rightarrow>
          fold (\<lambda>(senderId, senderCandidates) s'.
                  fold (\<lambda>(receiverId, receiverCandidates) s''.
                          if receiverId = uid u then
                            (case map_of (peerConnections s'') senderId of
                               None \<Rightarrow> s''
                             | Some h \<Rightarrow>
                                 fold (candidateStep_ctx env h) (map snd receiverCandidates) s'')
                          else s'') senderCandidates s') snapshot s)"

subsection \<open>Further inputs\<close>

text \<open>
  The selected microphone cannot be opened, any other can: every request that names a
  device or asks for video fails, the plain request for audio succeeds.
\<close>

definition envPlainAudio :: Env where
  "envPlainAudio =
     envOk\<lparr>getUserMedia := (\<lambda>n a v.
       if a = AnyDevice \<and> v = NoTrack
       then Some \<lparr>videoTracks = [], audioTracks = [liveTrack]\<rparr> else None)\<rparr>"

definition aliceSelectedMic :: state where
  "aliceSelectedMic = initialState\<lparr>user := Some alice, selectedAudioDevice := Some ''mic1''\<rparr>"

text \<open>The room with Bob present, as \<open>joinRoom\<close> of Alice reads it.\<close>

definition bobPresent :: Relay where
  "bobPresent = emptyRelay\<lparr>participants := aliceAndBob\<rparr>"

text \<open>
  The offers of the room after the glare of Alice and Bob has been settled and Carol has
  offered to Alice.
\<close>

definition offersWithCarol :: "(uid \<times> (uid \<times> sdp) list) list" where
  "offersWithCarol =
     bothOffers ''alice'' ''bob'' ''oa'' ''ob'' @ [(''carol'', [(''alice'', ''oc'')])]"

section \<open>Theorems\<close>

subsection \<open>C3: the aggregate connection status\<close>

lemma filter_nonempty_iff: "(0 < length (filter P xs)) = (\<exists>x \<in> set xs. P x)"
  by (induction xs) auto

text \<open>
  What the periodic check computes: \<open>connected\<close> when some connection of the map has ICE
  state connected or completed; otherwise \<open>disconnected\<close> when the map is empty;
  otherwise \<open>failed\<close> when at least one connection is failed or disconnected; otherwise
  \<open>connecting\<close>. Nothing else of the state changes.
\<close>

lemma connectionCheck_status:
  "connectionCheck s = s\<lparr>connectionStatus :=
     (if \<exists>pc \<in> set (pcValues s). isConnectedIce pc then StConnected
      else if peerConnections s = [] then StDisconnected
      else if \<exists>pc \<in> set (pcValues s). isFailedIce pc then StFailed
      else StConnecting)\<rparr>"
  by (simp add: connectionCheck_def Let_def filter_nonempty_iff del: length_greater_0_conv)

lemma connectionCheck_status_example:
  "connectionStatus (connectionCheck
     (withConnections [pcWith ''bob'' Stable Checking, pcWith ''carol'' Stable Connected]))
   = StConnected"
  using connectionCheck_status
    [of "withConnections [pcWith ''bob'' Stable Checking, pcWith ''carol'' Stable Connected]"]
  by (simp add: withConnections_def initialState_def pcValues_def pcAt_def pcWith_def
      isConnectedIce_def List.map_filter_def)

text \<open>
  What the ICE state handler computes when the connection \<open>h\<close> has failed: the status
  becomes \<open>failed\<close> only when every connection of the map is failed or disconnected,
  and is left as it is otherwise.
\<close>

lemma oniceconnectionstatechange_failed:
  assumes "pcAt s h = Some pc" and "iceConnectionState pc = Failed"
  shows "oniceconnectionstatechange h s =
           (if list_all isFailedIce (pcValues s) then s\<lparr>connectionStatus := StFailed\<rparr> else s)"
  using assms by (simp add: oniceconnectionstatechange_def)

text \<open>
  C3 fails on the periodic check, which contradicts the ICE state handler of the same file.
  The status is \<open>connecting\<close>, the connection to Bob has failed and the one to Carol
  is still checking, so the connections do not all share the state failed. The handler
  that runs when Bob's connection fails leaves the status \<open>connecting\<close>, as the claim
  and the handler's own comment have it; the check that runs every five seconds sets it
  to \<open>failed\<close>.
\<close>

theorem connectionCheck_contradicts_handler:
  "map iceConnectionState (pcValues oneFailedOneChecking) = [Failed, Checking]
   \<and> connectionStatus oneFailedOneChecking = StConnecting
   \<and> connectionStatus (oniceconnectionstatechange 0 oneFailedOneChecking) = StConnecting
   \<and> connectionStatus (connectionCheck oneFailedOneChecking) = StFailed"
  by code_simp

subsection \<open>C9: the bound on join attempts\<close>

text \<open>
  C9. When a call of \<open>joinRoom\<close> passes the first two guards (a user is signed in, and
  it is not a repeated join of the room being joined) with the attempt counter already
  at 3 or more, the increment takes the counter above 3: the call throws the error
  "Too many join attempts", stores that message in \<open>webRTCError\<close>, resets the counter
  to 0 and changes nothing else; in particular the room is not joined and nothing is
  written to the relay.
\<close>

theorem joinRoom_too_many_attempts:
  assumes "user s = Some u"
    and "\<not> (joinAttempted s \<and> currentRoomId s = Some roomId)"
    and "3 \<le> joinAttempts s"
  shows "joinRoom env envRetry relay roomId currentRoom s =
           (Inl tooManyAttempts, s\<lparr>webRTCError := Some tooManyAttempts, joinAttempts := 0\<rparr>)"
  using assms by (simp add: joinRoom_def Let_def)

theorem joinRoom_too_many_attempts_witness:
  "joinRoom envOk envOk emptyRelay ''r1'' (Some room1)
     (initialState\<lparr>user := Some alice, joinAttempts := 3\<rparr>)
   = (Inl tooManyAttempts,
      initialState\<lparr>user := Some alice, joinAttempts := 0, webRTCError := Some tooManyAttempts\<rparr>)"
  using joinRoom_too_many_attempts
    [of "initialState\<lparr>user := Some alice, joinAttempts := 3\<rparr>" alice "''r1''"
        envOk envOk emptyRelay "Some room1"]
  by (simp add: initialState_def)

subsection \<open>C10: leaving without a room or without a user\<close>

text \<open>
  C10. When \<open>currentRoomId\<close> is null or no user is signed in, \<open>leaveRoom\<close> returns the
  state it was given: peers, connection map, connections, status, local stream, join
  refs and the writes to the relay are all unchanged.
\<close>

theorem leaveRoom_guard:
  assumes "currentRoomId s = None \<or> user s = None"
  shows "leaveRoom env relay s = s"
  using assms by (auto simp add: leaveRoom_def split: option.splits)

theorem leaveRoom_guard_witness:
  "leaveRoom envOk emptyRelay
     (initialState\<lparr>user := Some alice, joinAttempts := 2,
        peerConnections := [(''bob'', 0)], pcHeap := [newPC ''bob'' ''r1'' True]\<rparr>)
   = initialState\<lparr>user := Some alice, joinAttempts := 2,
        peerConnections := [(''bob'', 0)], pcHeap := [newPC ''bob'' ''r1'' True]\<rparr>"
  using leaveRoom_guard
    [of "initialState\<lparr>user := Some alice, joinAttempts := 2,
        peerConnections := [(''bob'', 0)], pcHeap := [newPC ''bob'' ''r1'' True]\<rparr>"
        envOk emptyRelay]
  by (simp add: initialState_def)

subsection \<open>C8: failures of media acquisition\<close>

lemma initLocalStream_audio_only:
  "initLocalStream env n False True s =
     (let s1 = s\<lparr>localStream := map_option stopTracks (localStream s)\<rparr> in
      case getUserMedia env n (deviceConstraint True (selectedAudioDevice s)) NoTrack of
        Some got \<Rightarrow>
          (Some (enableTracks True True got),
           s1\<lparr>hasVideo := length (videoTracks got) > 0,
              hasAudio := length (audioTracks got) > 0,
              isVideoEnabled := True, isAudioEnabled := True,
              localStream := Some (enableTracks True True got)\<rparr>)
      | None \<Rightarrow>
          (case getUserMedia env (Suc n) AnyDevice NoTrack of
             Some audioOnlyStream \<Rightarrow>
               (Some audioOnlyStream,
                s1\<lparr>hasVideo := False, hasAudio := True, isAudioEnabled := True,
                   localStream := Some audioOnlyStream\<rparr>)
           | None \<Rightarrow> mediaFailed s1))"
  by (subst initLocalStream.simps)
    (simp add: Let_def deviceConstraint_def enableTracks_def split: option.splits)

lemma initLocalStream_video:
  "initLocalStream env n True audio s =
     (let s1 = s\<lparr>localStream := map_option stopTracks (localStream s)\<rparr> in
      case getUserMedia env n (deviceConstraint audio (selectedAudioDevice s))
             (deviceConstraint True (selectedVideoDevice s)) of
        Some got \<Rightarrow>
          (Some (enableTracks True True got),
           s1\<lparr>hasVideo := length (videoTracks got) > 0,
              hasAudio := length (audioTracks got) > 0,
              isVideoEnabled := True, isAudioEnabled := True,
              localStream := Some (enableTracks True True got)\<rparr>)
      | None \<Rightarrow> initLocalStream env (Suc n) False True s1)"
  by (subst initLocalStream.simps)
    (simp add: Let_def deviceConstraint_def enableTracks_def split: option.splits)

text \<open>
  C8, as amended. \<open>initLocalStream()\<close> makes up to three requests: camera and
  microphone; audio only, on the selected microphone; plain audio. When the first fails
  and the second succeeds it returns the stream of the second and sets no error. When the
  first two fail and the third succeeds it returns the stream of the third, records that
  there is audio and no video, and sets no error. When all three fail it returns
  \<open>null\<close> and sets the one error "Failed to access camera and microphone". It returns
  \<open>null\<close> exactly when all three fail, and the error is set exactly then. A
  \<open>joinRoom\<close> that has no local stream and gets \<open>null\<close> from the acquisition aborts:
  it throws "Failed to initialize local stream", stores the message, sets the status to
  failed, keeps the incremented attempt counter, and neither sets the room id nor writes
  the presence entry.
\<close>

theorem media_failure_handling:
  "(getUserMedia env 0 (deviceConstraint True (selectedAudioDevice s))
       (deviceConstraint True (selectedVideoDevice s)) = None \<and>
    getUserMedia env 1 (deviceConstraint True (selectedAudioDevice s)) NoTrack = Some st
    \<longrightarrow> fst (initLocalStream env 0 True True s) = Some (enableTracks True True st)
        \<and> webRTCError (snd (initLocalStream env 0 True True s)) = webRTCError s)
   \<and> (getUserMedia env 0 (deviceConstraint True (selectedAudioDevice s))
         (deviceConstraint True (selectedVideoDevice s)) = None \<and>
      getUserMedia env 1 (deviceConstraint True (selectedAudioDevice s)) NoTrack = None \<and>
      getUserMedia env 2 AnyDevice NoTrack = None
    \<longrightarrow> fst (initLocalStream env 0 True True s) = None
        \<and> webRTCError (snd (initLocalStream env 0 True True s)) = Some accessFailed)
   \<and> (getUserMedia env 0 (deviceConstraint True (selectedAudioDevice s))
         (deviceConstraint True (selectedVideoDevice s)) = None \<and>
      getUserMedia env 1 (deviceConstraint True (selectedAudioDevice s)) NoTrack = None \<and>
      getUserMedia env 2 AnyDevice NoTrack = Some st
    \<longrightarrow> fst (initLocalStream env 0 True True s) = Some st
        \<and> webRTCError (snd (initLocalStream env 0 True True s)) = webRTCError s
        \<and> \<not> hasVideo (snd (initLocalStream env 0 True True s))
        \<and> hasAudio (snd (initLocalStream env 0 True True s))
        \<and> localStream (snd (initLocalStream env 0 True True s)) = Some st)
   \<and> (fst (initLocalStream env 0 True True s) = None)
       = (getUserMedia env 0 (deviceConstraint True (selectedAudioDevice s))
            (deviceConstraint True (selectedVideoDevice s)) = None \<and>
          getUserMedia env 1 (deviceConstraint True (selectedAudioDevice s)) NoTrack = None \<and>
          getUserMedia env 2 AnyDevice NoTrack = None)
   \<and> webRTCError (snd (initLocalStream env 0 True True s))
       = (if fst (initLocalStream env 0 True True s) = None then Some accessFailed
          else webRTCError s)
   \<and> (user s = Some u \<and> \<not> (joinAttempted s \<and> currentRoomId s = Some roomId) \<and>
      joinAttempts s < 3 \<and> localStream s = None \<and> (\<forall>n a v. getUserMedia env n a v = None)
    \<longrightarrow> fst (joinRoom env envRetry relay roomId currentRoom s) = Inl noLocalStream
        \<and> currentRoomId (snd (joinRoom env envRetry relay roomId currentRoom s)) = currentRoomId s
        \<and> webRTCError (snd (joinRoom env envRetry relay roomId currentRoom s)) = Some noLocalStream
        \<and> connectionStatus (snd (joinRoom env envRetry relay roomId currentRoom s)) = StFailed
        \<and> joinAttempts (snd (joinRoom env envRetry relay roomId currentRoom s)) = joinAttempts s + 1
        \<and> sent (snd (joinRoom env envRetry relay roomId currentRoom s))
            = sent (cleanupSignalingData env relay roomId (uid u) s))"
proof (intro conjI impI)
  assume h: "getUserMedia env 0 (deviceConstraint True (selectedAudioDevice s))
       (deviceConstraint True (selectedVideoDevice s)) = None \<and>
    getUserMedia env 1 (deviceConstraint True (selectedAudioDevice s)) NoTrack = Some st"
  then show "fst (initLocalStream env 0 True True s) = Some (enableTracks True True st)"
    and "webRTCError (snd (initLocalStream env 0 True True s)) = webRTCError s"
    by (simp_all add: initLocalStream_video initLocalStream_audio_only Let_def)
next
  assume h: "getUserMedia env 0 (deviceConstraint True (selectedAudioDevice s))
       (deviceConstraint True (selectedVideoDevice s)) = None \<and>
      getUserMedia env 1 (deviceConstraint True (selectedAudioDevice s)) NoTrack = None \<and>
      getUserMedia env 2 AnyDevice NoTrack = None"
  then show "fst (initLocalStream env 0 True True s) = None"
    and "webRTCError (snd (initLocalStream env 0 True True s)) = Some accessFailed"
    by (simp_all add: initLocalStream_video initLocalStream_audio_only Let_def mediaFailed_def
        accessFailed_def numeral_2_eq_2)
next
  assume h: "getUserMedia env 0 (deviceConstraint True (selectedAudioDevice s))
         (deviceConstraint True (selectedVideoDevice s)) = None \<and>
      getUserMedia env 1 (deviceConstraint True (selectedAudioDevice s)) NoTrack = None \<and>
      getUserMedia env 2 AnyDevice NoTrack = Some st"
  then show "fst (initLocalStream env 0 True True s) = Some st"
    and "webRTCError (snd (initLocalStream env 0 True True s)) = webRTCError s"
    and "\<not> hasVideo (snd (initLocalStream env 0 True True s))"
    and "hasAudio (snd (initLocalStream env 0 True True s))"
    and "localStream (snd (initLocalStream env 0 True True s)) = Some st"
    by (simp_all add: initLocalStream_video initLocalStream_audio_only Let_def numeral_2_eq_2)
next
  show "(fst (initLocalStream env 0 True True s) = None)
       = (getUserMedia env 0 (deviceConstraint True (selectedAudioDevice s))
            (deviceConstraint True (selectedVideoDevice s)) = None \<and>
          getUserMedia env 1 (deviceConstraint True (selectedAudioDevice s)) NoTrack = None \<and>
          getUserMedia env 2 AnyDevice NoTrack = None)"
    by (auto simp add: initLocalStream_video initLocalStream_audio_only Let_def mediaFailed_def
        numeral_2_eq_2 split: option.splits)
next
  show "webRTCError (snd (initLocalStream env 0 True True s))
       = (if fst (initLocalStream env 0 True True s) = None then Some accessFailed
          else webRTCError s)"
    by (auto simp add: initLocalStream_video initLocalStream_audio_only Let_def mediaFailed_def
        numeral_2_eq_2 split: option.splits)
next
  assume h: "user s = Some u \<and> \<not> (joinAttempted s \<and> currentRoomId s = Some roomId) \<and>
      joinAttempts s < 3 \<and> localStream s = None \<and> (\<forall>n a v. getUserMedia env n a v = None)"
  let ?s0 = "s\<lparr>joinAttempts := joinAttempts s + 1, joinAttempted := True, webRTCError := None,
               connectionStatus := StConnecting\<rparr>"
  let ?r = "joinRoomTry env envRetry relay roomId currentRoom u ?s0"
  have t: "fst ?r = Inl noLocalStream" "currentRoomId (snd ?r) = currentRoomId s"
    "joinAttempts (snd ?r) = joinAttempts s + 1"
    "sent (snd ?r) = sent (cleanupSignalingData env relay roomId (uid u) s)"
    using h by (simp_all add: joinRoomTry_def Let_def initLocalStream_video
        initLocalStream_audio_only mediaFailed_def cleanupSignalingData_def send_def closeAll_def)
  have j: "joinRoom env envRetry relay roomId currentRoom s =
      (Inl noLocalStream,
       (snd ?r)\<lparr>webRTCError := Some noLocalStream, connectionStatus := StFailed,
                joinAttempted := False\<rparr>)"
  proof -
    obtain e s2 where r: "?r = (e, s2)" by (cases ?r)
    with t(1) have e: "e = Inl noLocalStream" by simp
    from h have g: "joinRoom env envRetry relay roomId currentRoom s =
       (case ?r of
          (Inl e, s2) \<Rightarrow>
            (Inl e, s2\<lparr>webRTCError := Some e, connectionStatus := StFailed,
                       joinAttempted := False\<rparr>)
        | (Inr x, s2) \<Rightarrow> (Inr x, s2\<lparr>joinAttempted := False\<rparr>))"
      by (auto simp add: joinRoom_def Let_def)
    show ?thesis unfolding g r e by simp
  qed
  show "fst (joinRoom env envRetry relay roomId currentRoom s) = Inl noLocalStream"
    and "webRTCError (snd (joinRoom env envRetry relay roomId currentRoom s)) = Some noLocalStream"
    and "connectionStatus (snd (joinRoom env envRetry relay roomId currentRoom s)) = StFailed"
    by (simp_all add: j)
  show "currentRoomId (snd (joinRoom env envRetry relay roomId currentRoom s)) = currentRoomId s"
    and "joinAttempts (snd (joinRoom env envRetry relay roomId currentRoom s)) = joinAttempts s + 1"
    and "sent (snd (joinRoom env envRetry relay roomId currentRoom s))
            = sent (cleanupSignalingData env relay roomId (uid u) s)"
    using t by (simp_all add: j)
qed

theorem media_failure_handling_witness:
  "fst (initLocalStream envAudioOnly 0 True True (initialState\<lparr>user := Some alice\<rparr>))
     = Some \<lparr>videoTracks = [], audioTracks = [liveTrack]\<rparr>
   \<and> webRTCError (snd (initLocalStream envAudioOnly 0 True True (initialState\<lparr>user := Some alice\<rparr>)))
     = None
   \<and> fst (initLocalStream envPlainAudio 0 True True aliceSelectedMic)
     = Some \<lparr>videoTracks = [], audioTracks = [liveTrack]\<rparr>
   \<and> webRTCError (snd (initLocalStream envPlainAudio 0 True True aliceSelectedMic)) = None
   \<and> hasAudio (snd (initLocalStream envPlainAudio 0 True True aliceSelectedMic))
   \<and> fst (initLocalStream envNoMedia 0 True True (initialState\<lparr>user := Some alice\<rparr>)) = None
   \<and> webRTCError (snd (initLocalStream envNoMedia 0 True True (initialState\<lparr>user := Some alice\<rparr>)))
     = Some accessFailed
   \<and> fst (joinRoom envNoMedia envOk emptyRelay ''r1'' (Some room1)
            (initialState\<lparr>user := Some alice\<rparr>)) = Inl noLocalStream
   \<and> currentRoomId (snd (joinRoom envNoMedia envOk emptyRelay ''r1'' (Some room1)
            (initialState\<lparr>user := Some alice\<rparr>))) = None"
  using media_failure_handling
      [of envAudioOnly "initialState\<lparr>user := Some alice\<rparr>"
          "\<lparr>videoTracks = [], audioTracks = [liveTrack]\<rparr>"]
    media_failure_handling
      [of envPlainAudio aliceSelectedMic "\<lparr>videoTracks = [], audioTracks = [liveTrack]\<rparr>"]
    media_failure_handling
      [of envNoMedia "initialState\<lparr>user := Some alice\<rparr>" _ alice "''r1''" envOk emptyRelay
          "Some room1"]
  by (simp add: initialState_def envAudioOnly_def envNoMedia_def envOk_def envPlainAudio_def
      aliceSelectedMic_def deviceConstraint_def truthy_def enableTracks_def liveTrack_def)

text \<open>
  C8 as stated fails. With every \<open>getUserMedia\<close> request failing, the join is aborted
  although the same join succeeds when media is available; and the step down to audio
  only sets no error at all.
\<close>

theorem joinRoom_media_counterexample:
  "fst (joinRoom envNoMedia envOk emptyRelay ''r1'' (Some room1)
         (initialState\<lparr>user := Some alice\<rparr>)) = Inl noLocalStream
   \<and> currentRoomId (snd (joinRoom envNoMedia envOk emptyRelay ''r1'' (Some room1)
         (initialState\<lparr>user := Some alice\<rparr>))) = None
   \<and> fst (joinRoom envOk envOk emptyRelay ''r1'' (Some room1)
         (initialState\<lparr>user := Some alice\<rparr>)) = Inr ()
   \<and> currentRoomId (snd (joinRoom envOk envOk emptyRelay ''r1'' (Some room1)
         (initialState\<lparr>user := Some alice\<rparr>))) = Some ''r1''
   \<and> hasVideo (snd (initLocalStream envAudioOnly 0 True True (initialState\<lparr>user := Some alice\<rparr>)))
       = False
   \<and> webRTCError (snd (initLocalStream envAudioOnly 0 True True (initialState\<lparr>user := Some alice\<rparr>)))
       = None"
  by (simp add: joinRoom_def joinRoomTry_def Let_def initLocalStream_video
      initLocalStream_audio_only mediaFailed_def cleanupSignalingData_def send_def closeAll_def
      initialState_def envAudioOnly_def envNoMedia_def envOk_def deviceConstraint_def
      truthy_def enableTracks_def liveTrack_def alice_def emptyRelay_def noLocalStream_def
      setupWebRTCListeners_def room1_def)

subsection \<open>C6: offers are created from the stable state only\<close>

lemma sendOffer_cases:
  "sendOffer env roomId me p h s = (ok, s') \<Longrightarrow>
     (\<not> ok \<and> sent s' = sent s) \<or>
     (ok \<and> (\<exists>pc offer. pcAt s h = Some pc \<and> createOffer env pc = Some offer \<and>
        (signalingState pc = Stable \<or> signalingState pc = HaveLocalOffer) \<and>
        s' = send [SetOffer roomId me p offer]
               (setPC h (pc\<lparr>signalingState := HaveLocalOffer, localDescription := Some offer\<rparr>) s)))"
  by (auto simp add: sendOffer_def setPC_def send_def setLocalOffer_def
      split: option.splits if_splits)

lemma pcAt_send [simp]: "pcAt (send cs s) h = pcAt s h"
  by (simp add: pcAt_def send_def)

lemma pcAt_setPC_same: "h < length (pcHeap s) \<Longrightarrow> pcAt (setPC h pc s) h = Some pc"
  by (simp add: pcAt_def setPC_def)

lemma pcAt_Some_less: "pcAt s h = Some pc \<Longrightarrow> h < length (pcHeap s)"
  by (simp add: pcAt_def split: if_splits)

text \<open>
  The handler of part_003 has the guard: it returns the state unchanged when the
  signalling state of the connection is not stable. Whenever it writes to the relay, the
  connection was stable and this side its initiator, the write is the one offer to the
  peer, and the connection is left in have-local-offer, so that a further
  negotiation-needed event on it does nothing.
\<close>

lemma onnegotiationneeded_guard:
  "(\<forall>pc. pcAt s h = Some pc \<and> signalingState pc \<noteq> Stable
       \<longrightarrow> onnegotiationneeded env h s = s)
   \<and> (sent (onnegotiationneeded env h s) \<noteq> sent s \<longrightarrow>
       (\<exists>pc u offer. pcAt s h = Some pc \<and> signalingState pc = Stable \<and> pcInitiator pc
          \<and> user s = Some u
          \<and> sent (onnegotiationneeded env h s)
              = sent s @ [SetOffer (pcRoom pc) (uid u) (pcPeer pc) offer]
          \<and> pcAt (onnegotiationneeded env h s) h
              = Some (pc\<lparr>signalingState := HaveLocalOffer, localDescription := Some offer\<rparr>)
          \<and> (\<forall>env'. onnegotiationneeded env' h (onnegotiationneeded env h s)
                      = onnegotiationneeded env h s)))"
proof (intro conjI allI impI)
  fix pc assume "pcAt s h = Some pc \<and> signalingState pc \<noteq> Stable"
  then show "onnegotiationneeded env h s = s"
    by (simp add: onnegotiationneeded_def split: option.splits)
next
  assume ch: "sent (onnegotiationneeded env h s) \<noteq> sent s"
  then obtain pc u where pc: "pcAt s h = Some pc" and u: "user s = Some u"
    by (auto simp add: onnegotiationneeded_def split: option.splits)
  from ch pc u have ini: "pcInitiator pc" "pcRoom pc \<noteq> []" and st: "signalingState pc = Stable"
    by (auto simp add: onnegotiationneeded_def split: if_splits)
  obtain ok s1 where so: "sendOffer env (pcRoom pc) (uid u) (pcPeer pc) h s = (ok, s1)"
    by (cases "sendOffer env (pcRoom pc) (uid u) (pcPeer pc) h s")
  from sendOffer_cases[OF so] ch pc u ini st so have ok: ok
    by (auto simp add: onnegotiationneeded_def)
  with sendOffer_cases[OF so] pc obtain offer where
    s1: "s1 = send [SetOffer (pcRoom pc) (uid u) (pcPeer pc) offer]
               (setPC h (pc\<lparr>signalingState := HaveLocalOffer, localDescription := Some offer\<rparr>) s)"
    by auto
  have r: "onnegotiationneeded env h s = s1"
    using pc u ini st so ok by (simp add: onnegotiationneeded_def)
  have at: "pcAt s1 h = Some (pc\<lparr>signalingState := HaveLocalOffer, localDescription := Some offer\<rparr>)"
    using pcAt_Some_less[OF pc] by (simp add: s1 pcAt_setPC_same)
  have again: "\<forall>env'. onnegotiationneeded env' h s1 = s1"
    using at by (simp add: onnegotiationneeded_def split: option.splits)
  show "\<exists>pc u offer. pcAt s h = Some pc \<and> signalingState pc = Stable \<and> pcInitiator pc
          \<and> user s = Some u
          \<and> sent (onnegotiationneeded env h s)
              = sent s @ [SetOffer (pcRoom pc) (uid u) (pcPeer pc) offer]
          \<and> pcAt (onnegotiationneeded env h s) h
              = Some (pc\<lparr>signalingState := HaveLocalOffer, localDescription := Some offer\<rparr>)
          \<and> (\<forall>env'. onnegotiationneeded env' h (onnegotiationneeded env h s)
                      = onnegotiationneeded env h s)"
    using pc st ini u at again unfolding r
    by (intro exI[of _ pc] exI[of _ u] exI[of _ offer]) (simp add: s1 send_def setPC_def)
qed

lemma onnegotiationneeded_guard_example:
  "onnegotiationneeded envOk 0 aliceOffering = aliceOffering"
  using onnegotiationneeded_guard[of aliceOffering 0 envOk]
  by (simp add: aliceOffering_def pcAt_def)


subsection \<open>C7: candidates wait for the remote description\<close>

lemma pcAt_setPC_other: "h' \<noteq> h \<Longrightarrow> pcAt (setPC h pc s) h' = pcAt s h'"
  by (simp add: pcAt_def setPC_def)

lemma pcAt_webRTCError [simp]: "pcAt (s\<lparr>webRTCError := e\<rparr>) h = pcAt s h"
  by (simp add: pcAt_def)

lemma candidateStep_keeps:
  assumes "pcAt s h' = Some pc" and "remoteDescription pc = None"
  shows "pcAt (candidateStep env roomId sender receiver rc h c s) h' = Some pc"
proof (cases "h' = h")
  case True
  with assms show ?thesis by (simp add: candidateStep_def)
next
  case False
  with assms show ?thesis
    by (auto simp add: candidateStep_def Let_def pcAt_setPC_other split: option.splits)
qed

lemma candidateSteps_keep:
  "pcAt s h' = Some pc \<Longrightarrow> remoteDescription pc = None \<Longrightarrow>
   pcAt (fold (candidateStep env roomId sender receiver rc h) cs s) h' = Some pc"
  by (induction cs arbitrary: s) (simp_all add: candidateStep_keeps)

lemma receivers_keep:
  "pcAt s h' = Some pc \<Longrightarrow> remoteDescription pc = None \<Longrightarrow>
   pcAt (fold (\<lambda>(receiverId, receiverCandidates) s''.
                          if receiverId = me then
                            (case map_of (peerConnections s'') senderId of
                               None \<Rightarrow> s''
                             | Some h \<Rightarrow>
                                 fold (candidateStep env roomId senderId receiverId
                                         receiverCandidates h)
                                   (map snd receiverCandidates) s'')
                          else s'') rs s) h' = Some pc"
  by (induction rs arbitrary: s) (auto simp add: candidateSteps_keep split: option.splits)

lemma candidatesListener_keeps:
  assumes "pcAt s h' = Some pc" and "remoteDescription pc = None"
  shows "pcAt (candidatesListener env roomId snapshot s) h' = Some pc"
proof (cases "user s")
  case None
  with assms show ?thesis by (simp add: candidatesListener_def)
next
  case (Some u)
  have "pcAt (fold (\<lambda>(senderId, senderCandidates) s'.
                  fold (\<lambda>(receiverId, receiverCandidates) s''.
                          if receiverId = uid u then
                            (case map_of (peerConnections s'') senderId of
                               None \<Rightarrow> s''
                             | Some h \<Rightarrow>
                                 fold (candidateStep env roomId senderId receiverId
                                         receiverCandidates h)
                                   (map snd receiverCandidates) s'')
                          else s'') senderCandidates s') snapshot s) h' = Some pc"
    using assms by (induction snapshot arbitrary: s) (auto simp add: receivers_keep)
  with Some show ?thesis by (simp add: candidatesListener_def)
qed

lemma find_value:
  "(key, c) \<in> set rc \<Longrightarrow>
   \<exists>k. find (\<lambda>(key, value). value = c) rc = Some (k, c) \<and> (distinct (map snd rc) \<longrightarrow> k = key)"
  by (induction rc) (auto simp add: rev_image_eqI)

text \<open>
  The listener of part_003 has the guard. For a candidate addressed to this user from a
  peer whose connection is known: while the connection has no remote description the
  candidate is skipped and nothing changes (nothing is applied, nothing is removed); once
  the remote description is set, and \<open>addIceCandidate\<close> and the relay accept, the
  candidate is added and the message carrying it is removed from the relay (the first
  entry of the snapshot with that payload, which is the message itself when the payloads
  differ). Over a whole snapshot, every connection without a remote description is left
  exactly as it was, so \<open>addIceCandidate\<close> is never called on such a connection; and
  the listener, given one candidate from a peer whose connection has a remote
  description, adds it to that connection and removes its message.
\<close>

lemma candidates_wait_for_remote_description:
  "(\<forall>pc. pcAt s h = Some pc \<and> remoteDescription pc = None
       \<longrightarrow> candidateStep env roomId sender receiver rc h c s = s)
   \<and> (\<forall>pc key. pcAt s h = Some pc \<and> remoteDescription pc \<noteq> None \<and> pcLive pc
          \<and> addIceOk env \<and> relayOk env \<and> (key, c) \<in> set rc
       \<longrightarrow> (\<exists>k. find (\<lambda>(key, value). value = c) rc = Some (k, c)
              \<and> (distinct (map snd rc) \<longrightarrow> k = key)
              \<and> candidateStep env roomId sender receiver rc h c s
                  = send [RemoveCandidate roomId sender receiver k]
                      (setPC h (pc\<lparr>iceCalls := iceCalls pc @ [c],
                                   addedCandidates := addedCandidates pc @ [c]\<rparr>) s)))
   \<and> (\<forall>h' pc. pcAt s h' = Some pc \<and> remoteDescription pc = None
       \<longrightarrow> pcAt (candidatesListener env roomId snapshot s) h' = Some pc)
   \<and> (\<forall>u pc key. user s = Some u \<and> map_of (peerConnections s) sender = Some h
          \<and> pcAt s h = Some pc \<and> remoteDescription pc \<noteq> None \<and> pcLive pc
          \<and> addIceOk env \<and> relayOk env
       \<longrightarrow> candidatesListener env roomId [(sender, [(uid u, [(key, c)])])] s
             = send [RemoveCandidate roomId sender (uid u) key]
                 (setPC h (pc\<lparr>iceCalls := iceCalls pc @ [c],
                              addedCandidates := addedCandidates pc @ [c]\<rparr>) s))"
proof (intro conjI allI impI)
  fix pc assume "pcAt s h = Some pc \<and> remoteDescription pc = None"
  then show "candidateStep env roomId sender receiver rc h c s = s"
    by (simp add: candidateStep_def)
next
  fix u pc key
  assume "user s = Some u \<and> map_of (peerConnections s) sender = Some h
          \<and> pcAt s h = Some pc \<and> remoteDescription pc \<noteq> None \<and> pcLive pc
          \<and> addIceOk env \<and> relayOk env"
  then show "candidatesListener env roomId [(sender, [(uid u, [(key, c)])])] s
             = send [RemoveCandidate roomId sender (uid u) key]
                 (setPC h (pc\<lparr>iceCalls := iceCalls pc @ [c],
                              addedCandidates := addedCandidates pc @ [c]\<rparr>) s)"
    by (auto simp add: candidatesListener_def candidateStep_def Let_def addIceCandidate_def
        pcLive_def)
next
  fix pc key
  assume a: "pcAt s h = Some pc \<and> remoteDescription pc \<noteq> None \<and> pcLive pc
          \<and> addIceOk env \<and> relayOk env \<and> (key, c) \<in> set rc"
  then obtain k where k: "find (\<lambda>(key, value). value = c) rc = Some (k, c)"
    "distinct (map snd rc) \<longrightarrow> k = key"
    using find_value[of key c rc] by blast
  with a show "\<exists>k. find (\<lambda>(key, value). value = c) rc = Some (k, c)
              \<and> (distinct (map snd rc) \<longrightarrow> k = key)
              \<and> candidateStep env roomId sender receiver rc h c s
                  = send [RemoveCandidate roomId sender receiver k]
                      (setPC h (pc\<lparr>iceCalls := iceCalls pc @ [c],
                                   addedCandidates := addedCandidates pc @ [c]\<rparr>) s)"
    by (intro exI[of _ k]) (auto simp add: candidateStep_def Let_def addIceCandidate_def pcLive_def)
next
  fix h' pc assume "pcAt s h' = Some pc \<and> remoteDescription pc = None"
  then show "pcAt (candidatesListener env roomId snapshot s) h' = Some pc"
    by (simp add: candidatesListener_keeps)
qed

lemma candidates_wait_for_remote_description_example:
  "candidateStep envOk ''r1'' ''bob'' ''alice'' [(''k1'', ''c1''), (''k2'', ''c2'')] 0 ''c2'' aliceFresh
     = aliceFresh
   \<and> pcAt (candidatesListener envOk ''r1'' bobCandidates aliceFresh) 0
     = Some (newPC ''bob'' ''r1'' True)
   \<and> sent (candidateStep envOk ''r1'' ''bob'' ''alice'' [(''k1'', ''c1''), (''k2'', ''c2'')] 0 ''c2''
             aliceAnswered)
     = [RemoveCandidate ''r1'' ''bob'' ''alice'' ''k2'']"
proof -
  let ?rc = "[(''k1'', ''c1''), (''k2'', ''c2'')]"
  note fresh = candidates_wait_for_remote_description
      [of aliceFresh 0 envOk "''r1''" "''bob''" "''alice''" ?rc "''c2''" bobCandidates]
  note answered = candidates_wait_for_remote_description
      [of aliceAnswered 0 envOk "''r1''" "''bob''" "''alice''" ?rc "''c2''" bobCandidates]
  have p: "pcAt aliceFresh 0 = Some (newPC ''bob'' ''r1'' True)"
    "remoteDescription (newPC ''bob'' ''r1'' True) = None"
    by (simp_all add: aliceFresh_def pcAt_def newPC_def)
  from fresh p have a:
    "candidateStep envOk ''r1'' ''bob'' ''alice'' ?rc 0 ''c2'' aliceFresh = aliceFresh"
    by blast
  from fresh p have b:
    "pcAt (candidatesListener envOk ''r1'' bobCandidates aliceFresh) 0
       = Some (newPC ''bob'' ''r1'' True)"
    by blast
  let ?pc = "(newPC ''bob'' ''r1'' False)\<lparr>remoteDescription := Some ''offer'',
                   localDescription := Some ''answer''\<rparr>"
  have q: "pcAt aliceAnswered 0 = Some ?pc" "remoteDescription ?pc \<noteq> None" "pcLive ?pc"
    "addIceOk envOk" "relayOk envOk" "(''k2'', ''c2'') \<in> set ?rc" "distinct (map snd ?rc)"
    by (simp_all add: aliceAnswered_def pcAt_def newPC_def pcLive_def envOk_def)
  from answered q have
    "\<exists>k. k = ''k2'' \<and> candidateStep envOk ''r1'' ''bob'' ''alice'' ?rc 0 ''c2'' aliceAnswered
        = send [RemoveCandidate ''r1'' ''bob'' ''alice'' k]
            (setPC 0 (?pc\<lparr>iceCalls := iceCalls ?pc @ [''c2''],
                          addedCandidates := addedCandidates ?pc @ [''c2'']\<rparr>) aliceAnswered)"
    by blast
  then have c: "sent (candidateStep envOk ''r1'' ''bob'' ''alice'' ?rc 0 ''c2'' aliceAnswered)
     = [RemoveCandidate ''r1'' ''bob'' ''alice'' ''k2'']"
    by (auto simp add: send_def setPC_def aliceAnswered_def initialState_def)
  from a b c show ?thesis by simp
qed


text \<open>
  C7 fails on the candidates listener of webrtc-context.tsx (lines 1289-1329), which hands
  every candidate to \<open>addIceCandidate\<close> without looking at the remote description and
  removes nothing. Alice has a fresh connection to Bob, without remote description, and
  receives two candidates from him: \<open>addIceCandidate\<close> is called with both, the browser
  rejects them, none is added and the error is set. On her connection that has a remote
  description the candidates are added, but their messages stay in the relay. The
  listener of part_003 leaves the fresh connection alone and removes the two messages of
  the candidates it adds.
\<close>

theorem candidatesListener_ctx_no_guard:
  "map remoteDescription (pcHeap aliceFresh) = [None]
   \<and> map iceCalls (pcHeap (candidatesListener_ctx envOk ''r1'' bobCandidates aliceFresh))
       = [[''c1'', ''c2'']]
   \<and> map addedCandidates (pcHeap (candidatesListener_ctx envOk ''r1'' bobCandidates aliceFresh))
       = [[]]
   \<and> webRTCError (candidatesListener_ctx envOk ''r1'' bobCandidates aliceFresh)
       = Some connectFailed
   \<and> map addedCandidates (pcHeap (candidatesListener_ctx envOk ''r1'' bobCandidates aliceAnswered))
       = [[''c1'', ''c2'']]
   \<and> sent (candidatesListener_ctx envOk ''r1'' bobCandidates aliceAnswered) = []
   \<and> candidatesListener envOk ''r1'' bobCandidates aliceFresh = aliceFresh
   \<and> sent (candidatesListener envOk ''r1'' bobCandidates aliceAnswered)
       = [RemoveCandidate ''r1'' ''bob'' ''alice'' ''k1'',
          RemoveCandidate ''r1'' ''bob'' ''alice'' ''k2'']"
  by code_simp

subsection \<open>C4: reconciling the roster\<close>

lemma initLocalStream_frame:
  "peers (snd (initLocalStream env n v a s)) = peers s
   \<and> peerConnections (snd (initLocalStream env n v a s)) = peerConnections s
   \<and> pcHeap (snd (initLocalStream env n v a s)) = pcHeap s
   \<and> user (snd (initLocalStream env n v a s)) = user s
   \<and> sent (snd (initLocalStream env n v a s)) = sent s"
proof (induction env n v a s rule: initLocalStream.induct)
  case (1 env n video audio s)
  show ?case
    using 1 by (subst (1 2 3 4 5) initLocalStream.simps)
      (auto simp add: Let_def mediaFailed_def split: option.splits)
qed

lemma tracks_id: "\<exists>n. xs = xs[h := (xs ! h)\<lparr>pcTracks := n\<rparr>]"
  by (rule exI[of _ "pcTracks (xs ! h)"]) simp

lemma attachLocalTracks_frame:
  "peers (attachLocalTracks env cs h s) = peers s
   \<and> peerConnections (attachLocalTracks env cs h s) = peerConnections s
   \<and> user (attachLocalTracks env cs h s) = user s
   \<and> sent (attachLocalTracks env cs h s) = sent s
   \<and> (\<exists>n. pcHeap (attachLocalTracks env cs h s) = (pcHeap s)[h := (pcHeap s ! h)\<lparr>pcTracks := n\<rparr>])"
proof -
  obtain r s1 where i: "initLocalStream env 0 True True (s\<lparr>localStream := cs\<rparr>) = (r, s1)"
    by (cases "initLocalStream env 0 True True (s\<lparr>localStream := cs\<rparr>)")
  from initLocalStream_frame[of env 0 True True "s\<lparr>localStream := cs\<rparr>"] i
  have f: "peers s1 = peers s" "peerConnections s1 = peerConnections s" "pcHeap s1 = pcHeap s"
    "user s1 = user s" "sent s1 = sent s" by simp_all
  show ?thesis
    using f tracks_id[of "pcHeap s" h] unfolding attachLocalTracks_def i
    by (auto split: option.splits)
qed

lemma update_absent: "map_of al k = None \<Longrightarrow> AList.update k v al = al @ [(k, v)]"
  by (induction al) auto

lemma createPeerConnection_absent:
  assumes "map_of (peerConnections s) p = None" and "user s \<noteq> None" and "roomId \<noteq> []"
    and "ctorOk env"
  shows "\<exists>s' n. createPeerConnection env cs p roomId ini s = (Some (length (pcHeap s)), s')
     \<and> peers s' = peers s \<and> user s' = user s \<and> sent s' = sent s
     \<and> peerConnections s' = peerConnections s @ [(p, length (pcHeap s))]
     \<and> pcHeap s' = pcHeap s @ [(newPC p roomId ini)\<lparr>pcTracks := n\<rparr>]"
proof -
  let ?s2 = "s\<lparr>pcHeap := pcHeap s @ [newPC p roomId ini],
               peerConnections := AList.update p (length (pcHeap s)) (peerConnections s)\<rparr>"
  have c: "createPeerConnection env cs p roomId ini s
           = (Some (length (pcHeap s)), attachLocalTracks env cs (length (pcHeap s)) ?s2)"
    using assms by (simp add: createPeerConnection_def Let_def)
  from attachLocalTracks_frame[of env cs "length (pcHeap s)" ?s2] assms(1)
  show ?thesis unfolding c by (auto simp add: update_absent)
qed

lemma addPeer_ids: "peerId ` set (addPeer p name ps) = insert p (peerId ` set ps)"
  by (auto simp add: addPeer_def)



lemma freshFor_Nil: "freshFor roomId [] [] base"
  by (simp add: freshFor_def)

lemma upt_shift: "[base ..< base + Suc n] = base # [Suc base ..< Suc base + n]"
  by (simp add: upt_rec)

lemma freshFor_Cons:
  assumes "freshFor roomId added new (Suc base)"
  shows "freshFor roomId ((p, base) # added) ((newPC p roomId True)\<lparr>pcTracks := n\<rparr> # new) base"
proof -
  from assms have m: "map snd added = [Suc base ..< Suc base + length new]"
    and l: "list_all2 (\<lambda>(p, h) pc. \<exists>n. pc = (newPC p roomId True)\<lparr>pcTracks := n\<rparr>) added new"
    by (simp_all add: freshFor_def)
  have "map snd ((p, base) # added) = [base ..< base + Suc (length new)]"
    unfolding upt_shift using m by simp
  with l show ?thesis by (auto simp add: freshFor_def)
qed

lemma addParticipants:
  assumes "user s = Some u" and "roomId \<noteq> []" and "ctorOk env"
  shows "\<exists>added new.
      user (fold (addParticipant env roomId (uid u)) xs s) = user s
    \<and> sent (fold (addParticipant env roomId (uid u)) xs s) = sent s
    \<and> peerId ` set (peers (fold (addParticipant env roomId (uid u)) xs s))
        = peerId ` set (peers s) \<union> fst ` set added
    \<and> peerConnections (fold (addParticipant env roomId (uid u)) xs s) = peerConnections s @ added
    \<and> pcHeap (fold (addParticipant env roomId (uid u)) xs s) = pcHeap s @ new
    \<and> fst ` set added = {p \<in> fst ` set xs. p \<noteq> uid u \<and> p \<notin> fst ` set (peerConnections s)}
    \<and> distinct (map fst added)
    \<and> freshFor roomId added new (length (pcHeap s))"
  using assms
proof (induction xs arbitrary: s)
  case Nil
  show ?case by (rule exI[of _ "[]"], rule exI[of _ "[]"]) (simp add: freshFor_Nil)
next
  case (Cons x xs)
  obtain p name where x: "x = (p, name)" by (cases x)
  show ?case
  proof (cases "p \<noteq> uid u \<and> map_of (peerConnections s) p = None")
    case False
    then have st: "addParticipant env roomId (uid u) x s = s"
      by (auto simp add: addParticipant_def x)
    from False have "p = uid u \<or> p \<in> fst ` set (peerConnections s)"
      by (auto simp add: map_of_eq_None_iff)
    then have eq: "{q \<in> fst ` set (x # xs). q \<noteq> uid u \<and> q \<notin> fst ` set (peerConnections s)}
        = {q \<in> fst ` set xs. q \<noteq> uid u \<and> q \<notin> fst ` set (peerConnections s)}"
      by (auto simp add: x)
    from Cons.IH[OF Cons.prems] show ?thesis
      unfolding fold_Cons comp_apply st eq .
  next
    case True
    let ?s0 = "s\<lparr>peers := addPeer p name (peers s)\<rparr>"
    from True Cons.prems createPeerConnection_absent[of ?s0 p roomId env "capturedStream s" True]
    obtain s1 n where c: "createPeerConnection env (capturedStream s) p roomId True ?s0 = (Some (length (pcHeap s)), s1)"
      and s1: "peers s1 = addPeer p name (peers s)" "user s1 = user s" "sent s1 = sent s"
        "peerConnections s1 = peerConnections s @ [(p, length (pcHeap s))]"
        "pcHeap s1 = pcHeap s @ [(newPC p roomId True)\<lparr>pcTracks := n\<rparr>]"
      by auto
    from True c have st: "addParticipant env roomId (uid u) x s = s1"
      by (simp add: addParticipant_def x)
    from Cons.prems s1 have u1: "user s1 = Some u" by simp
    from Cons.IH[OF u1 Cons.prems(2,3)] obtain added new where
      ih: "user (fold (addParticipant env roomId (uid u)) xs s1) = user s1"
        "sent (fold (addParticipant env roomId (uid u)) xs s1) = sent s1"
        "peerId ` set (peers (fold (addParticipant env roomId (uid u)) xs s1))
           = peerId ` set (peers s1) \<union> fst ` set added"
        "peerConnections (fold (addParticipant env roomId (uid u)) xs s1) = peerConnections s1 @ added"
        "pcHeap (fold (addParticipant env roomId (uid u)) xs s1) = pcHeap s1 @ new"
        "fst ` set added = {q \<in> fst ` set xs. q \<noteq> uid u \<and> q \<notin> fst ` set (peerConnections s1)}"
        "distinct (map fst added)"
        "freshFor roomId added new (length (pcHeap s1))"
      by (elim exE conjE) (rule that; assumption)
    let ?added = "(p, length (pcHeap s)) # added"
    let ?new = "(newPC p roomId True)\<lparr>pcTracks := n\<rparr> # new"
    from True have pn: "p \<notin> fst ` set (peerConnections s)"
      by (simp add: map_of_eq_None_iff)
    have a: "fst ` set ?added
         = {q \<in> fst ` set (x # xs). q \<noteq> uid u \<and> q \<notin> fst ` set (peerConnections s)}"
      using ih(6) True pn by (auto simp add: s1 x)
    have d: "distinct (map fst ?added)"
      using ih(6,7) by (auto simp add: s1)
    have f: "freshFor roomId ?added ?new (length (pcHeap s))"
      using ih(8) by (intro freshFor_Cons) (simp add: s1)
    have c1: "user (fold (addParticipant env roomId (uid u)) xs s1) = user s"
      and c2: "sent (fold (addParticipant env roomId (uid u)) xs s1) = sent s"
      and c3: "peerId ` set (peers (fold (addParticipant env roomId (uid u)) xs s1))
                 = peerId ` set (peers s) \<union> fst ` set ?added"
      and c4: "peerConnections (fold (addParticipant env roomId (uid u)) xs s1)
                 = peerConnections s @ ?added"
      and c5: "pcHeap (fold (addParticipant env roomId (uid u)) xs s1) = pcHeap s @ ?new"
      using ih(1-5) by (simp_all add: s1 addPeer_ids)
    show ?thesis
      unfolding fold_Cons comp_apply st
      by (intro exI[of _ ?added] exI[of _ ?new] conjI) (fact c1 c2 c3 c4 c5 a d f)+
  qed
qed

lemma closeAt_length [simp]: "length (closeAt h heap) = length heap"
  by (simp add: closeAt_def)

lemma closeAt_nth:
  "i < length heap \<Longrightarrow> closeAt h heap ! i = (if i = h then pcClose (heap ! i) else heap ! i)"
  by (simp add: closeAt_def)

lemma pcClose_idem [simp]: "pcClose (pcClose pc) = pcClose pc"
  by (simp add: pcClose_def)

lemma delete_filter: "AList.delete k al = filter (\<lambda>(k', v). k' \<noteq> k) al"
  by (induction al) auto

lemma dropConnections:
  "peers (fold (dropConnection present) ks s) = peers s
   \<and> user (fold (dropConnection present) ks s) = user s
   \<and> sent (fold (dropConnection present) ks s) = sent s
   \<and> peerConnections (fold (dropConnection present) ks s)
       = filter (\<lambda>(p, h). p \<notin> set ks \<or> p \<in> set present) (peerConnections s)
   \<and> length (pcHeap (fold (dropConnection present) ks s)) = length (pcHeap s)
   \<and> (\<forall>i < length (pcHeap s).
         pcHeap (fold (dropConnection present) ks s) ! i
           = (if \<exists>p \<in> set ks. p \<notin> set present \<and> map_of (peerConnections s) p = Some i
              then pcClose (pcHeap s ! i) else pcHeap s ! i))"
proof (induction ks arbitrary: s)
  case Nil
  show ?case by simp
next
  case (Cons k ks)
  let ?s1 = "dropConnection present k s"
  have len: "length (pcHeap ?s1) = length (pcHeap s)"
    by (simp add: dropConnection_def split: option.splits)
  have frame: "peers ?s1 = peers s" "user ?s1 = user s" "sent ?s1 = sent s"
    by (simp_all add: dropConnection_def split: option.splits)
  have conns: "peerConnections ?s1
       = filter (\<lambda>(p, h). p \<noteq> k \<or> p \<in> set present) (peerConnections s)"
  proof (cases "k \<in> set present \<or> map_of (peerConnections s) k = None")
    case True
    then have "peerConnections ?s1 = peerConnections s"
      by (auto simp add: dropConnection_def)
    moreover from True have "\<forall>(p, h) \<in> set (peerConnections s). p \<noteq> k \<or> p \<in> set present"
      by (auto simp add: map_of_eq_None_iff rev_image_eqI)
    then have "filter (\<lambda>(p, h). p \<noteq> k \<or> p \<in> set present) (peerConnections s) = peerConnections s"
      by (auto simp add: filter_id_conv)
    ultimately show ?thesis by simp
  next
    case False
    then show ?thesis
      by (auto simp add: dropConnection_def delete_filter intro: filter_cong)
  qed
  have mo: "\<And>p. p \<noteq> k \<Longrightarrow> map_of (peerConnections ?s1) p = map_of (peerConnections s) p"
    by (auto simp add: dropConnection_def split: option.splits)
  have mk: "k \<notin> set present \<Longrightarrow> map_of (peerConnections ?s1) k = None"
    by (auto simp add: dropConnection_def AList.delete_conv' split: option.splits)
  have nth1: "\<And>i. i < length (pcHeap s) \<Longrightarrow>
      pcHeap ?s1 ! i = (if k \<notin> set present \<and> map_of (peerConnections s) k = Some i
                        then pcClose (pcHeap s ! i) else pcHeap s ! i)"
    by (auto simp add: dropConnection_def closeAt_nth split: option.splits)
  note ih = Cons.IH[of ?s1]
  have c4: "peerConnections (fold (dropConnection present) (k # ks) s)
       = filter (\<lambda>(p, h). p \<notin> set (k # ks) \<or> p \<in> set present) (peerConnections s)"
  proof -
    have "peerConnections (fold (dropConnection present) (k # ks) s)
        = filter (\<lambda>(p, h). p \<notin> set ks \<or> p \<in> set present)
            (filter (\<lambda>(p, h). p \<noteq> k \<or> p \<in> set present) (peerConnections s))"
      using ih by (simp add: conns)
    also have "\<dots> = filter (\<lambda>(p, h). p \<notin> set (k # ks) \<or> p \<in> set present) (peerConnections s)"
      by (auto intro: filter_cong)
    finally show ?thesis .
  qed
  have c6: "\<forall>i < length (pcHeap s).
         pcHeap (fold (dropConnection present) (k # ks) s) ! i
           = (if \<exists>p \<in> set (k # ks). p \<notin> set present \<and> map_of (peerConnections s) p = Some i
              then pcClose (pcHeap s ! i) else pcHeap s ! i)"
  proof (intro allI impI)
    fix i assume i: "i < length (pcHeap s)"
    let ?A = "k \<notin> set present \<and> map_of (peerConnections s) k = Some i"
    let ?B1 = "\<exists>p \<in> set ks. p \<notin> set present \<and> map_of (peerConnections ?s1) p = Some i"
    let ?B = "\<exists>p \<in> set ks. p \<notin> set present \<and> map_of (peerConnections s) p = Some i"
    from ih len i have e: "pcHeap (fold (dropConnection present) ks ?s1) ! i
           = (if ?B1 then pcClose (pcHeap ?s1 ! i) else pcHeap ?s1 ! i)"
      by simp
    have b1: "?B1 \<Longrightarrow> ?B"
    proof -
      assume ?B1
      then obtain p where p: "p \<in> set ks" "p \<notin> set present"
        "map_of (peerConnections ?s1) p = Some i" by blast
      with mk have "p \<noteq> k" by auto
      with p mo show ?B by auto
    qed
    have b2: "?B \<Longrightarrow> ?B1 \<or> ?A"
    proof -
      assume ?B
      then obtain p where p: "p \<in> set ks" "p \<notin> set present"
        "map_of (peerConnections s) p = Some i" by blast
      show "?B1 \<or> ?A"
      proof (cases "p = k")
        case True with p show ?thesis by simp
      next
        case False with p mo show ?thesis by auto
      qed
    qed
    define A where "A \<longleftrightarrow> ?A"
    define B where "B \<longleftrightarrow> ?B"
    define B1 where "B1 \<longleftrightarrow> ?B1"
    have s: "(\<exists>p \<in> set (k # ks). p \<notin> set present \<and> map_of (peerConnections s) p = Some i)
               = (A \<or> B)" by (auto simp add: A_def B_def)
    have e': "pcHeap (fold (dropConnection present) ks ?s1) ! i
           = (if B1 then pcClose (pcHeap ?s1 ! i) else pcHeap ?s1 ! i)"
      using e by (simp only: B1_def)
    have n': "pcHeap ?s1 ! i = (if A then pcClose (pcHeap s ! i) else pcHeap s ! i)"
      using nth1[OF i] by (simp only: A_def)
    have r: "B1 \<longrightarrow> B" "B \<longrightarrow> B1 \<or> A"
      using b1 b2 by (auto simp only: A_def B_def B1_def)
    have "pcHeap (fold (dropConnection present) ks ?s1) ! i
           = (if A \<or> B then pcClose (pcHeap s ! i) else pcHeap s ! i)"
      unfolding e' n' using r by (cases A; cases B; cases B1) simp_all
    then show "pcHeap (fold (dropConnection present) (k # ks) s) ! i
           = (if \<exists>p \<in> set (k # ks). p \<notin> set present \<and> map_of (peerConnections s) p = Some i
              then pcClose (pcHeap s ! i) else pcHeap s ! i)"
      unfolding s by simp
  qed
  show ?case
    using ih len frame c4 c6 by simp
qed


lemma drop_peers: "peers (fold (dropConnection present) ks s) = peers s"
  using dropConnections by blast

lemma drop_conns:
  "peerConnections (fold (dropConnection present) ks s)
     = filter (\<lambda>(p, h). p \<notin> set ks \<or> p \<in> set present) (peerConnections s)"
  using dropConnections by blast

lemma drop_length: "length (pcHeap (fold (dropConnection present) ks s)) = length (pcHeap s)"
  using dropConnections by blast

lemma drop_nth:
  "i < length (pcHeap s) \<Longrightarrow>
   pcHeap (fold (dropConnection present) ks s) ! i
     = (if \<exists>p \<in> set ks. p \<notin> set present \<and> map_of (peerConnections s) p = Some i
        then pcClose (pcHeap s ! i) else pcHeap s ! i)"
  using dropConnections by blast

lemma freshFor_member:
  assumes "freshFor roomId added new base" and "(p, h) \<in> set added"
  shows "base \<le> h \<and> h < base + length new
         \<and> (\<exists>n. new ! (h - base) = (newPC p roomId True)\<lparr>pcTracks := n\<rparr>)"
proof -
  from assms(1) have m: "map snd added = [base ..< base + length new]"
    and l: "list_all2 (\<lambda>(p, h) pc. \<exists>n. pc = (newPC p roomId True)\<lparr>pcTracks := n\<rparr>) added new"
    by (simp_all add: freshFor_def)
  from l have len: "length added = length new" by (rule list_all2_lengthD)
  from assms(2) obtain j where j: "j < length added" "added ! j = (p, h)"
    by (auto simp add: in_set_conv_nth)
  from j len have "map snd added ! j = base + j" unfolding m by simp
  with j have h: "h = base + j" by simp
  from list_all2_nthD[OF l j(1)] j(2)
  have "\<exists>n. new ! j = (newPC p roomId True)\<lparr>pcTracks := n\<rparr>"
    by simp
  with h j len show ?thesis by simp
qed

lemma image_filter_key: "f ` set (filter (\<lambda>x. f x \<in> A) xs) = f ` set xs \<inter> A"
  by auto

lemma map_of_filter_keys:
  "k \<in> A \<Longrightarrow> map_of (filter (\<lambda>(p, h). p \<in> A) xs) k = map_of xs k"
  by (induction xs) auto

text \<open>
  What the participants listener does reach. A snapshot that does not exist (an empty
  roster) leaves the state as it is. For a snapshot that exists, when connections can be
  constructed, self is neither a peer nor a key of the map, every connected member of
  the roster has a Peer record and the handles of the map are valid: after the listener
  the ids of the peers and the keys of the connection map are both the roster minus
  self; the connection of every known id absent from the roster is closed; and every
  roster id that was not in the map has a fresh connection with this side as initiator.
\<close>

lemma participantsListener_reconciles:
  "participantsListener env roomId [] s = s
   \<and> (user s = Some u \<and> snapshot \<noteq> [] \<and> roomId \<noteq> [] \<and> ctorOk env
        \<and> uid u \<notin> fst ` set (peerConnections s) \<and> uid u \<notin> peerId ` set (peers s)
        \<and> fst ` set (peerConnections s) \<inter> fst ` set snapshot \<subseteq> peerId ` set (peers s)
        \<and> (\<forall>(p, h) \<in> set (peerConnections s). h < length (pcHeap s))
      \<longrightarrow> peerId ` set (peers (participantsListener env roomId snapshot s))
            = fst ` set snapshot - {uid u}
        \<and> fst ` set (peerConnections (participantsListener env roomId snapshot s))
            = fst ` set snapshot - {uid u}
        \<and> (\<forall>p h. map_of (peerConnections s) p = Some h \<and> p \<notin> fst ` set snapshot
              \<longrightarrow> pcAt (participantsListener env roomId snapshot s) h
                    = map_option pcClose (pcAt s h))
        \<and> (\<forall>p. p \<in> fst ` set snapshot \<and> p \<noteq> uid u \<and> p \<notin> fst ` set (peerConnections s)
              \<longrightarrow> (\<exists>h n. map_of (peerConnections (participantsListener env roomId snapshot s)) p
                             = Some h
                        \<and> length (pcHeap s) \<le> h
                        \<and> pcAt (participantsListener env roomId snapshot s) h
                            = Some ((newPC p roomId True)\<lparr>pcTracks := n\<rparr>))))"
proof (intro conjI impI)
  show "participantsListener env roomId [] s = s"
    by (simp add: participantsListener_def split: option.splits)
next
  assume a: "user s = Some u \<and> snapshot \<noteq> [] \<and> roomId \<noteq> [] \<and> ctorOk env
        \<and> uid u \<notin> fst ` set (peerConnections s) \<and> uid u \<notin> peerId ` set (peers s)
        \<and> fst ` set (peerConnections s) \<inter> fst ` set snapshot \<subseteq> peerId ` set (peers s)
        \<and> (\<forall>(p, h) \<in> set (peerConnections s). h < length (pcHeap s))"
  let ?P = "fst ` set snapshot"
  define s1 where "s1 = fold (addParticipant env roomId (uid u)) snapshot s"
  define s2 where
    "s2 = s1\<lparr>peers := filter (\<lambda>peer. peerId peer \<in> set (map fst snapshot)) (peers s1)\<rparr>"
  define s' where "s' = fold (dropConnection (map fst snapshot)) (map fst (peerConnections s2)) s2"
  from a have r: "participantsListener env roomId snapshot s = s'"
    by (simp add: participantsListener_def Let_def s1_def s2_def s'_def)
  from a have a3: "user s = Some u" "roomId \<noteq> []" "ctorOk env" by simp_all
  from addParticipants[OF a3, of snapshot, folded s1_def] obtain added new where
    ad: "peerId ` set (peers s1) = peerId ` set (peers s) \<union> fst ` set added"
      "peerConnections s1 = peerConnections s @ added"
      "pcHeap s1 = pcHeap s @ new"
      "fst ` set added = {p \<in> ?P. p \<noteq> uid u \<and> p \<notin> fst ` set (peerConnections s)}"
      "distinct (map fst added)"
      "freshFor roomId added new (length (pcHeap s))"
    by (elim exE conjE) (rule that; assumption)
  have s2: "peers s2 = filter (\<lambda>peer. peerId peer \<in> ?P) (peers s1)"
    "peerConnections s2 = peerConnections s @ added" "pcHeap s2 = pcHeap s @ new"
    by (simp_all add: s2_def ad)
  have conns: "peerConnections s' = filter (\<lambda>(p, h). p \<in> ?P) (peerConnections s @ added)"
  proof -
    have "peerConnections s'
        = filter (\<lambda>(p, h). p \<notin> set (map fst (peerConnections s2)) \<or> p \<in> set (map fst snapshot))
            (peerConnections s2)"
      unfolding s'_def by (rule drop_conns)
    also have "\<dots> = filter (\<lambda>(p, h). p \<in> ?P) (peerConnections s2)"
      by (rule filter_cong) (auto simp add: rev_image_eqI)
    finally show ?thesis by (simp only: s2)
  qed
  have len: "length (pcHeap s') = length (pcHeap s) + length new"
    unfolding s'_def drop_length by (simp add: s2)
  define dropped where "dropped i \<longleftrightarrow>
     (\<exists>p \<in> set (map fst (peerConnections s2)).
         p \<notin> set (map fst snapshot) \<and> map_of (peerConnections s2) p = Some i)" for i
  have nth: "\<And>i. i < length (pcHeap s) + length new \<Longrightarrow>
      pcHeap s' ! i = (if dropped i then pcClose (pcHeap s2 ! i) else pcHeap s2 ! i)"
  proof -
    fix i assume "i < length (pcHeap s) + length new"
    then have "i < length (pcHeap s2)" by (simp add: s2)
    from drop_nth[OF this, of "map fst snapshot" "map fst (peerConnections s2)"]
    show "pcHeap s' ! i = (if dropped i then pcClose (pcHeap s2 ! i) else pcHeap s2 ! i)"
      unfolding s'_def[symmetric] dropped_def .
  qed
  have droppedI: "\<And>p i. map_of (peerConnections s @ added) p = Some i \<Longrightarrow> p \<notin> ?P \<Longrightarrow> dropped i"
  proof -
    fix p i assume m: "map_of (peerConnections s @ added) p = Some i" and p: "p \<notin> ?P"
    from m have "p \<in> fst ` set (peerConnections s @ added)"
      by (metis map_of_eq_None_iff option.distinct(1))
    with m p show "dropped i" unfolding dropped_def s2 set_map by (intro bexI[of _ p] conjI)
  qed
  have droppedD: "\<And>i. dropped i \<Longrightarrow>
      \<exists>p. p \<notin> ?P \<and> map_of (peerConnections s @ added) p = Some i"
    unfolding dropped_def s2 set_map by blast
  have old: "\<And>p h. map_of (peerConnections s) p = Some h \<Longrightarrow> h < length (pcHeap s)"
    using a by (auto dest: map_of_SomeD)
  show "peerId ` set (peers (participantsListener env roomId snapshot s)) = ?P - {uid u}"
  proof -
    have "peers s' = peers s2" unfolding s'_def by (rule drop_peers)
    then have "peerId ` set (peers s') = (peerId ` set (peers s) \<union> fst ` set added) \<inter> ?P"
      by (simp only: s2(1) image_filter_key ad(1))
    also have "\<dots> = ?P - {uid u}" using a ad(4) by auto
    finally show ?thesis unfolding r .
  qed
  show "fst ` set (peerConnections (participantsListener env roomId snapshot s)) = ?P - {uid u}"
  proof -
    have "filter (\<lambda>(p, h). p \<in> ?P) (peerConnections s @ added)
            = filter (\<lambda>x. fst x \<in> ?P) (peerConnections s @ added)"
      by (simp add: case_prod_unfold)
    then have "fst ` set (peerConnections s') = (fst ` set (peerConnections s) \<union> fst ` set added) \<inter> ?P"
      unfolding conns by (simp only: image_filter_key set_append image_Un)
    also have "\<dots> = ?P - {uid u}" using a ad(4) by auto
    finally show ?thesis unfolding r .
  qed
  show "\<forall>p h. map_of (peerConnections s) p = Some h \<and> p \<notin> ?P
              \<longrightarrow> pcAt (participantsListener env roomId snapshot s) h
                    = map_option pcClose (pcAt s h)"
  proof (intro allI impI)
    fix p h assume ph: "map_of (peerConnections s) p = Some h \<and> p \<notin> ?P"
    then have h: "h < length (pcHeap s)" using old by blast
    from ph have m: "map_of (peerConnections s @ added) p = Some h" by simp
    from droppedI[OF m] ph have "dropped h" by simp
    with nth[of h] h have "pcHeap s' ! h = pcClose (pcHeap s ! h)"
      by (simp add: s2 nth_append)
    with h len show "pcAt (participantsListener env roomId snapshot s) h
                    = map_option pcClose (pcAt s h)"
      unfolding r by (simp add: pcAt_def)
  qed
  show "\<forall>p. p \<in> ?P \<and> p \<noteq> uid u \<and> p \<notin> fst ` set (peerConnections s)
              \<longrightarrow> (\<exists>h n. map_of (peerConnections (participantsListener env roomId snapshot s)) p
                             = Some h
                        \<and> length (pcHeap s) \<le> h
                        \<and> pcAt (participantsListener env roomId snapshot s) h
                            = Some ((newPC p roomId True)\<lparr>pcTracks := n\<rparr>))"
  proof (intro allI impI)
    fix p assume p: "p \<in> ?P \<and> p \<noteq> uid u \<and> p \<notin> fst ` set (peerConnections s)"
    with ad(4) have "p \<in> fst ` set added" by simp
    then obtain h where ph: "(p, h) \<in> set added" by auto
    from freshFor_member[OF ad(6) ph] obtain n where
      hb: "length (pcHeap s) \<le> h" "h < length (pcHeap s) + length new"
        "new ! (h - length (pcHeap s)) = (newPC p roomId True)\<lparr>pcTracks := n\<rparr>"
      by blast
    from ph ad(5) have ma: "map_of added p = Some h" by (rule map_of_is_SomeI[rotated])
    from p have "map_of (peerConnections s) p = None" by (simp add: map_of_eq_None_iff)
    with ma have m2: "map_of (peerConnections s @ added) p = Some h"
      by (simp add: map_add_def map_of_append)
    from p have m: "map_of (peerConnections s') p = Some h"
      unfolding conns using map_of_filter_keys[of p ?P "peerConnections s @ added"] m2 by simp
    have no: "\<not> dropped h"
    proof
      assume "dropped h"
      from droppedD[OF this] obtain q where
        q: "q \<notin> ?P" "map_of (peerConnections s @ added) q = Some h" by blast
      show False
      proof (cases "map_of (peerConnections s) q")
        case None
        with q(2) have "map_of added q = Some h" by (simp add: map_add_def map_of_append)
        then have "q \<in> fst ` set added" by (auto dest: map_of_SomeD simp add: rev_image_eqI)
        with ad(4) q(1) show False by simp
      next
        case (Some h0)
        with q(2) have "h0 = h" by (simp add: map_add_def map_of_append)
        with Some old hb(1) show False by fastforce
      qed
    qed
    from nth[OF hb(2)] no hb have "pcHeap s' ! h = (newPC p roomId True)\<lparr>pcTracks := n\<rparr>"
      by (simp add: s2 nth_append)
    with hb(2) len have "pcAt s' h = Some ((newPC p roomId True)\<lparr>pcTracks := n\<rparr>)"
      by (simp add: pcAt_def)
    with m hb(1) show "\<exists>h n. map_of (peerConnections (participantsListener env roomId snapshot s)) p
                             = Some h
                        \<and> length (pcHeap s) \<le> h
                        \<and> pcAt (participantsListener env roomId snapshot s) h
                            = Some ((newPC p roomId True)\<lparr>pcTracks := n\<rparr>)"
      unfolding r by blast
  qed
qed

lemma participantsListener_reconciles_example:
  "peerId ` set (peers (participantsListener envOk ''r1'' aliceAndBob aliceWithCarol)) = {''bob''}
   \<and> fst ` set (peerConnections (participantsListener envOk ''r1'' aliceAndBob aliceWithCarol))
       = {''bob''}
   \<and> pcAt (participantsListener envOk ''r1'' aliceAndBob aliceWithCarol) 0
       = Some (pcClose (newPC ''carol'' ''r1'' True))"
proof -
  note t = participantsListener_reconciles[of envOk "''r1''" aliceWithCarol alice aliceAndBob]
  have h: "user aliceWithCarol = Some alice \<and> aliceAndBob \<noteq> [] \<and> ''r1'' \<noteq> [] \<and> ctorOk envOk
        \<and> uid alice \<notin> fst ` set (peerConnections aliceWithCarol)
        \<and> uid alice \<notin> peerId ` set (peers aliceWithCarol)
        \<and> fst ` set (peerConnections aliceWithCarol) \<inter> fst ` set aliceAndBob
             \<subseteq> peerId ` set (peers aliceWithCarol)
        \<and> (\<forall>(p, h) \<in> set (peerConnections aliceWithCarol). h < length (pcHeap aliceWithCarol))"
    by (simp add: aliceWithCarol_def aliceJoined_def initialState_def aliceAndBob_def envOk_def
        alice_def carolPeer_def)
  have f: "fst ` set aliceAndBob - {uid alice} = {''bob''}"
    by (auto simp add: aliceAndBob_def alice_def)
  have m: "map_of (peerConnections aliceWithCarol) ''carol'' = Some 0"
    "''carol'' \<notin> fst ` set aliceAndBob"
    "pcAt aliceWithCarol 0 = Some (newPC ''carol'' ''r1'' True)"
    by (simp_all add: aliceWithCarol_def aliceJoined_def initialState_def aliceAndBob_def pcAt_def)
  note c0 = mp[OF conjunct2[OF t] h]
  note c = c0[THEN conjunct1] c0[THEN conjunct2, THEN conjunct1]
    c0[THEN conjunct2, THEN conjunct2, THEN conjunct1]
  from c(3) m have "pcAt (participantsListener envOk ''r1'' aliceAndBob aliceWithCarol) 0
       = Some (pcClose (newPC ''carol'' ''r1'' True))"
    by simp
  with c(1,2) f show ?thesis by simp
qed

text \<open>
  C4 fails when a connection exists for a member of the roster who has no Peer record.
  The listener takes an id to be known when the connection map has an entry for it, and
  adds the Peer record only together with the connection. The offers listener creates
  the connection on which it answers an offer and adds no Peer record. So when Alice has
  answered an offer of Bob and then receives the roster with Bob in it, Bob is not added:
  the peers are empty although the roster minus self is Bob, and stay so for every
  further roster that lists him. \<open>joinRoom\<close> reading the same roster does add the Peer
  record of every id other than self.
\<close>

theorem participantsListener_skips_connected_peer:
  "peers aliceJoined = []
   \<and> map fst (peerConnections (offersListener envOk ''r1'' bobOffer aliceJoined)) = [''bob'']
   \<and> peers (offersListener envOk ''r1'' bobOffer aliceJoined) = []
   \<and> peers (participantsListener envOk ''r1'' aliceAndBob
              (offersListener envOk ''r1'' bobOffer aliceJoined)) = []
   \<and> peers (participantsListener envOk ''r1'' aliceAndBob
              (participantsListener envOk ''r1'' aliceAndBob
                 (offersListener envOk ''r1'' bobOffer aliceJoined))) = []
   \<and> map fst (peerConnections (participantsListener envOk ''r1'' aliceAndBob
              (offersListener envOk ''r1'' bobOffer aliceJoined))) = [''bob'']
   \<and> map peerId (peers (snd (joinRoom envOk envOk bobPresent ''r1'' (Some room1)
                                  (initialState\<lparr>user := Some alice\<rparr>)))) = [''bob'']"
  by code_simp

text \<open>
  An empty roster is a snapshot that does not exist: the listener does nothing, so Carol
  stays a peer and her connection stays open.
\<close>

lemma participantsListener_empty_roster:
  "map peerId (peers (participantsListener envOk ''r1'' [] aliceWithCarol)) = [''carol'']
   \<and> map (map_option pcLive) [pcAt (participantsListener envOk ''r1'' [] aliceWithCarol) 0]
       = [Some True]"
  by code_simp

subsection \<open>C5: consumption of signalling messages\<close>

lemma lookupPC_setPC_send:
  "lookupPC s p = Some (h, pc) \<Longrightarrow> lookupPC (send cs (setPC h pc' s)) p = Some (h, pc')"
  by (auto simp add: lookupPC_def pcAt_def setPC_def send_def split: option.splits if_splits)

text \<open>
  An answer that is applied is removed from the relay, and the same answer delivered again
  finds the connection stable and is skipped.
\<close>

lemma answer_consumed_then_ignored:
  assumes "lookupPC s senderId = Some (h, pc)" and "signalingState pc = HaveLocalOffer"
    and "setRemoteOk env" and "relayOk env"
  shows "answerStep env roomId me senderId answer s
           = send [RemoveAnswer roomId senderId me]
               (setPC h (pc\<lparr>signalingState := Stable, remoteDescription := Some answer\<rparr>) s)"
    and "answerStep env' roomId me senderId answer (answerStep env roomId me senderId answer s)
           = answerStep env roomId me senderId answer s"
proof -
  show 1: "answerStep env roomId me senderId answer s
           = send [RemoveAnswer roomId senderId me]
               (setPC h (pc\<lparr>signalingState := Stable, remoteDescription := Some answer\<rparr>) s)"
    using assms by (simp add: answerStep_def setRemoteAnswer_def)
  show "answerStep env' roomId me senderId answer (answerStep env roomId me senderId answer s)
           = answerStep env roomId me senderId answer s"
    unfolding 1 using lookupPC_setPC_send[OF assms(1)]
    by (simp add: answerStep_def)
qed

text \<open>
  C5 on the offers path. Alice receives the snapshot holding Bob's offer twice. The first
  delivery answers it and removes nothing; the second delivery, of the offer that was
  already acted on, answers it again: a second answer is written and the state changes.
\<close>

theorem offer_replayed:
  "sent (offersListener envOk ''r1'' bobOffer aliceJoined)
     = [SetAnswer ''r1'' ''alice'' ''bob'' ''answer'']
   \<and> sent (offersListener envOk ''r1'' bobOffer (offersListener envOk ''r1'' bobOffer aliceJoined))
     = [SetAnswer ''r1'' ''alice'' ''bob'' ''answer'', SetAnswer ''r1'' ''alice'' ''bob'' ''answer'']
   \<and> offersListener envOk ''r1'' bobOffer (offersListener envOk ''r1'' bobOffer aliceJoined)
     \<noteq> offersListener envOk ''r1'' bobOffer aliceJoined"
  by code_simp

text \<open>
  A candidates snapshot delivered twice hands every candidate to \<open>addIceCandidate\<close>
  twice.
\<close>

lemma candidate_replayed:
  "map_option iceCalls
     (pcAt (candidatesListener envOk ''r1'' bobCandidates
              (candidatesListener envOk ''r1'' bobCandidates aliceAnswered)) 0)
     = Some [''c1'', ''c2'', ''c1'', ''c2'']"
  by code_simp

subsection \<open>C1: glare resolution\<close>

text \<open>
  The tie-break of the offers listener. An offer that finds the connection to its sender
  in have-local-offer is ignored when the own id is the greater one; otherwise (the
  rollback succeeding) the own offer is rolled back and the incoming offer is processed.
\<close>

lemma glare_tie_break:
  assumes "map_of (peerConnections s) senderId = Some h" and "pcAt s h = Some pc"
    and "signalingState pc = HaveLocalOffer"
  shows "me > senderId \<Longrightarrow> offerStep env roomId me senderId offer s = s"
    and "\<not> me > senderId \<Longrightarrow> rollbackOk env \<Longrightarrow>
         offerStep env roomId me senderId offer s
           = processOffer env roomId me senderId offer h
               (setPC h (pc\<lparr>signalingState := Stable, localDescription := None\<rparr>) s)"
  using assms by (simp_all add: offerStep_def setLocalRollback_def)

lemma loser_accepts:
  assumes "a < b" and "rollbackOk env" and "setRemoteOk env" and "setLocalOk env"
    and "relayOk env" and "createAnswerSdp env = Some answer"
  shows "offersListener env room (bothOffers a b oa ob)
           ((client room a b HaveLocalOffer (Some oa) None)\<lparr>sent := []\<rparr>)
         = (client room a b Stable (Some answer) (Some ob))\<lparr>sent := [SetAnswer room a b answer]\<rparr>"
proof -
  from assms(1) have n: "\<not> b < a" "a \<noteq> b" by auto
  show ?thesis
    using assms n
    by (simp add: offersListener_def bothOffers_def client_def initialState_def offerStep_def
        pcAt_def newPC_def setLocalRollback_def processOffer_def setPC_def setRemoteOffer_def
        createAnswer_def setLocalAnswer_def send_def Let_def)
qed

lemma winner_ignores:
  assumes "a < b"
  shows "offersListener env room (bothOffers a b oa ob)
           ((client room b a HaveLocalOffer (Some ob) None)\<lparr>sent := []\<rparr>)
         = client room b a HaveLocalOffer (Some ob) None"
proof -
  from assms have n: "a \<noteq> b" by auto
  show ?thesis
    using assms n
    by (simp add: offersListener_def bothOffers_def client_def initialState_def offerStep_def
        pcAt_def newPC_def)
qed

lemma own_answer_skipped:
  assumes "a < b"
  shows "answersListener env room [(a, [(b, answer)])]
           ((client room a b sg loc rem)\<lparr>sent := []\<rparr>)
         = client room a b sg loc rem"
proof -
  from assms have n: "b \<noteq> a" by auto
  show ?thesis using n by (simp add: answersListener_def client_def initialState_def)
qed

lemma no_answers: "answersListener env room [] s = s"
  by (simp add: answersListener_def split: option.splits)

lemma winner_applies_answer:
  assumes "setRemoteOk env" and "relayOk env"
  shows "answersListener env room [(a, [(b, answer)])]
           ((client room b a HaveLocalOffer (Some ob) None)\<lparr>sent := []\<rparr>)
         = (client room b a Stable (Some ob) (Some answer))\<lparr>sent := [RemoveAnswer room a b]\<rparr>"
  using assms
  by (simp add: answersListener_def client_def initialState_def answerStep_def lookupPC_def
      pcAt_def newPC_def setRemoteAnswer_def setPC_def send_def)

lemma client_sent [simp]: "(client room me other sg loc rem)\<lparr>sent := []\<rparr> = client room me other sg loc rem"
  by (simp add: client_def initialState_def)


lemma client_sent_sel [simp]: "sent (client room me other sg loc rem) = []"
  by (simp add: client_def initialState_def)

lemma stage_step:
  assumes "a < b" and "rollbackOk env" and "setRemoteOk env" and "setLocalOk env"
    and "relayOk env" and "createAnswerSdp env = Some answer" and "i \<le> 11"
  shows "deliver env room t (stage room a b oa ob answer i)
         = stage room a b oa ob answer (nextStage t i)"
proof -
  note f = loser_accepts[OF assms(1-6), unfolded client_sent]
    winner_ignores[OF assms(1), unfolded client_sent]
    own_answer_skipped[OF assms(1), unfolded client_sent]
    winner_applies_answer[OF assms(3,5), unfolded client_sent] no_answers
  note S = stage_def stageWorld_def nextStage_def deliver_def handleEvent_def publish_def
    publish1_def setEntry_def removeEntry_def Let_def
  from assms(7) consider "i = 11" | "i = 10" | "i = 9" | "i = 8" | "i = 7" | "i = 6"
    | "i = 5" | "i = 4" | "i = 3" | "i = 2" | "i = 1" | "i = 0"
    by atomize_elim arith
  then show ?thesis
  proof cases
    case 1
    then show ?thesis by (cases t) (simp_all add: S f)
  next
    case 2
    then show ?thesis by (cases t) (simp_all add: S f)
  next
    case 3
    then show ?thesis by (cases t) (simp_all add: S f)
  next
    case 4
    then show ?thesis by (cases t) (simp_all add: S f)
  next
    case 5
    then show ?thesis by (cases t) (simp_all add: S f)
  next
    case 6
    then show ?thesis by (cases t) (simp_all add: S f)
  next
    case 7
    then show ?thesis by (cases t) (simp_all add: S f)
  next
    case 8
    then show ?thesis by (cases t) (simp_all add: S f)
  next
    case 9
    then show ?thesis by (cases t) (simp_all add: S f)
  next
    case 10
    then show ?thesis by (cases t) (simp_all add: S f)
  next
    case 11
    then show ?thesis by (cases t) (simp_all add: S f)
  next
    case 12
    then show ?thesis by (cases t) (simp_all add: S f)
  qed
qed


lemma nextStage_le: "nextStage t i \<le> 11"
proof -
  have "min i 11 = 0 \<or> min i 11 = 1 \<or> min i 11 = 2 \<or> min i 11 = 3 \<or> min i 11 = 4
      \<or> min i 11 = 5 \<or> min i 11 = 6 \<or> min i 11 = 7 \<or> min i 11 = 8 \<or> min i 11 = 9
      \<or> min i 11 = 10 \<or> min i 11 = 11" by arith
  then show ?thesis
    by (cases t) (auto simp add: nextStage_def)
qed

lemma run_stage:
  assumes "a < b" and "rollbackOk env" and "setRemoteOk env" and "setLocalOk env"
    and "relayOk env" and "createAnswerSdp env = Some answer"
  shows "i \<le> 11 \<Longrightarrow>
         run env room turns (stage room a b oa ob answer i)
           = stage room a b oa ob answer (fold nextStage turns i)"
proof (induction turns arbitrary: i)
  case Nil
  show ?case by (simp add: run_def)
next
  case (Cons t turns)
  from Cons.IH[OF nextStage_le, of t i] stage_step[OF assms Cons.prems, of room t oa ob]
  show ?case by (simp add: run_def)
qed

lemma fold_nextStage_le: "i \<le> 11 \<Longrightarrow> fold nextStage turns i \<le> 11"
  by (induction turns arbitrary: i) (simp_all add: nextStage_le)

lemma rounds_settle: "i \<le> 11 \<Longrightarrow> fold nextStage rounds i = 11"
proof -
  assume "i \<le> 11"
  then consider "i = 11" | "i = 10" | "i = 9" | "i = 8" | "i = 7" | "i = 6"
    | "i = 5" | "i = 4" | "i = 3" | "i = 2" | "i = 1" | "i = 0"
    by atomize_elim arith
  then show ?thesis
    by cases (simp_all add: rounds_def nextStage_def)
qed

lemma stage_quiescent:
  "i \<le> 11 \<Longrightarrow> qA (stage room a b oa ob answer i) = [] \<Longrightarrow>
   qB (stage room a b oa ob answer i) = [] \<Longrightarrow> i = 11"
proof -
  assume "i \<le> 11" and q: "qA (stage room a b oa ob answer i) = []"
    "qB (stage room a b oa ob answer i) = []"
  then consider "i = 11" | "i = 10" | "i = 9" | "i = 8" | "i = 7" | "i = 6"
    | "i = 5" | "i = 4" | "i = 3" | "i = 2" | "i = 1" | "i = 0"
    by atomize_elim arith
  then show ?thesis
    using q by cases (simp_all add: stage_def stageWorld_def Let_def)
qed

lemma stage_first: "stage room a b oa ob answer 0 = glareWorld room a b oa ob"
  by (simp add: stage_def stageWorld_def glareWorld_def Let_def)

lemma stage_last: "stage room a b oa ob answer 11 = settledWorld room a b oa ob answer"
  by (simp add: stage_def stageWorld_def settledWorld_def Let_def)

lemma stage_winner_keeps_offer:
  "map localDescription (pcHeap (wB (stage room a b oa ob answer i))) = [Some ob]"
  by (simp add: stage_def stageWorld_def client_def Let_def)

text \<open>
  The tie-break of part_003 in the closed system of two clients. Two users \<open>a < b\<close>
  have both offered (glare), both offers have reached the relay before either client
  handles one, no other client writes, and the browser and relay operations succeed.
  Whatever the order in which the two clients take their turns, three further rounds of
  turns end in the settled world: both connections are stable, \<open>a\<close> has rolled its
  offer back and answered the offer of \<open>b\<close>, and \<open>b\<close> holds that answer. Any
  world reached in which no event is pending is the settled world. In every world
  reached, the connection of \<open>b\<close> is the one it had, with its own offer as local
  description.
\<close>

lemma glare_resolution:
  assumes "a < b" and "rollbackOk env" and "setRemoteOk env" and "setLocalOk env"
    and "relayOk env" and "createAnswerSdp env = Some answer"
  shows "run env room (turns @ rounds) (glareWorld room a b oa ob)
           = settledWorld room a b oa ob answer
       \<and> (qA (run env room turns (glareWorld room a b oa ob)) = []
            \<and> qB (run env room turns (glareWorld room a b oa ob)) = []
          \<longrightarrow> run env room turns (glareWorld room a b oa ob)
                = settledWorld room a b oa ob answer)
       \<and> map localDescription (pcHeap (wB (run env room turns (glareWorld room a b oa ob))))
           = [Some ob]"
proof -
  note r = run_stage[OF assms, of 0 room _ oa ob, unfolded stage_first, simplified]
  have le: "fold nextStage turns 0 \<le> 11" by (simp add: fold_nextStage_le)
  have 1: "run env room (turns @ rounds) (glareWorld room a b oa ob)
           = settledWorld room a b oa ob answer"
    unfolding r by (simp add: rounds_settle[OF le] stage_last)
  have 2: "qA (run env room turns (glareWorld room a b oa ob)) = []
            \<and> qB (run env room turns (glareWorld room a b oa ob)) = []
          \<longrightarrow> run env room turns (glareWorld room a b oa ob)
                = settledWorld room a b oa ob answer"
    unfolding r using stage_quiescent[OF le] stage_last by metis
  have 3: "map localDescription (pcHeap (wB (run env room turns (glareWorld room a b oa ob))))
           = [Some ob]"
    unfolding r by (rule stage_winner_keeps_offer)
  from 1 2 3 show ?thesis by blast
qed

lemma glare_resolution_example:
  "run envOk ''r1'' ([TurnB, TurnB, TurnA] @ rounds) (glareWorld ''r1'' ''alice'' ''bob'' ''oa'' ''ob'')
     = settledWorld ''r1'' ''alice'' ''bob'' ''oa'' ''ob'' ''answer''"
proof -
  have "''alice'' < ''bob''" by simp
  moreover have "rollbackOk envOk" "setRemoteOk envOk" "setLocalOk envOk" "relayOk envOk"
    "createAnswerSdp envOk = Some ''answer''"
    by (simp_all add: envOk_def)
  ultimately show ?thesis
    using glare_resolution[of "''alice''" "''bob''" envOk "''answer''" "''r1''"
        "[TurnB, TurnB, TurnA]" "''oa''" "''ob''"]
    by blast
qed

text \<open>
  The offers listener of webrtc-context.tsx skips an offer whenever the connection is not
  stable, on either side: it has no tie-break.
\<close>

lemma offerStep_ctx_skips:
  assumes "map_of (peerConnections s) senderId = Some h" and "pcAt s h = Some pc"
    and "signalingState pc \<noteq> Stable"
  shows "offerStep_ctx env roomId me senderId offer s = s"
  using assms by (simp add: offerStep_ctx_def)

lemma offersListener_ctx_glare:
  "offersListener_ctx env room (bothOffers a b oa ob) (client room a b HaveLocalOffer loc rem)
     = client room a b HaveLocalOffer loc rem
   \<and> offersListener_ctx env room (bothOffers a b oa ob) (client room b a HaveLocalOffer loc rem)
     = client room b a HaveLocalOffer loc rem"
  by (simp add: offersListener_ctx_def bothOffers_def client_def initialState_def
      offerStep_ctx_def pcAt_def newPC_def)

text \<open>
  C1 fails in both variants of the offers listener. In webrtc-context.tsx (lines
  1164-1172) there is no tie-break: with Alice and Bob both in have-local-offer and both
  offers in the relay, the listener of either side skips the offer of the other, nothing
  is rolled back, nothing is written, and both connections stay in have-local-offer. In
  part_003 the lesser side rolls back and the glare is settled, but the offers are never
  removed from the relay: when the offers change again (Carol offers to Alice), Bob, who
  had won, finds his connection stable and takes the rolled-back offer of Alice as remote
  description and answers it, while Alice keeps the offer of Bob: the two ends no longer
  hold the same offer and answer.
\<close>

theorem glare_not_resolved:
  "offersListener_ctx envOk ''r1'' (bothOffers ''alice'' ''bob'' ''oa'' ''ob'')
       (client ''r1'' ''alice'' ''bob'' HaveLocalOffer (Some ''oa'') None)
     = client ''r1'' ''alice'' ''bob'' HaveLocalOffer (Some ''oa'') None
   \<and> offersListener_ctx envOk ''r1'' (bothOffers ''alice'' ''bob'' ''oa'' ''ob'')
       (client ''r1'' ''bob'' ''alice'' HaveLocalOffer (Some ''ob'') None)
     = client ''r1'' ''bob'' ''alice'' HaveLocalOffer (Some ''ob'') None
   \<and> map remoteDescription
         (pcHeap (wB (settledWorld ''r1'' ''alice'' ''bob'' ''oa'' ''ob'' ''answer'')))
       = [Some ''answer'']
   \<and> map remoteDescription
         (pcHeap (offersListener envOk ''r1'' offersWithCarol
                    (wB (settledWorld ''r1'' ''alice'' ''bob'' ''oa'' ''ob'' ''answer''))))
       = [Some ''oa'']
   \<and> sent (offersListener envOk ''r1'' offersWithCarol
               (wB (settledWorld ''r1'' ''alice'' ''bob'' ''oa'' ''ob'' ''answer'')))
       = [SetAnswer ''r1'' ''bob'' ''alice'' ''answer'']
   \<and> map remoteDescription
         (pcHeap (offersListener envOk ''r1'' offersWithCarol
                    (wA (settledWorld ''r1'' ''alice'' ''bob'' ''oa'' ''ob'' ''answer''))))
       = [Some ''ob'', Some ''oc'']"
  by code_simp

subsection \<open>C2: one live connection per peer\<close>

text \<open>
  A state is \<open>registered\<close> when every live connection is the one the map holds for its
  peer; then no peer has two live connections.
\<close>

lemma registered_oneLive: "registered s \<Longrightarrow> oneLivePerPeer s"
  unfolding registered_def oneLivePerPeer_def
  by (metis option.inject)

lemma tracks_nth:
  "i < length xs \<Longrightarrow>
   pcLive (xs[h := (xs ! h)\<lparr>pcTracks := n\<rparr>] ! i) = pcLive (xs ! i)
   \<and> pcPeer (xs[h := (xs ! h)\<lparr>pcTracks := n\<rparr>] ! i) = pcPeer (xs ! i)"
  by (cases "i = h") (simp_all add: pcLive_def)

lemma attachLocalTracks_heap:
  "length (pcHeap (attachLocalTracks env cs h s)) = length (pcHeap s)
   \<and> (\<forall>i < length (pcHeap s).
        pcLive (pcHeap (attachLocalTracks env cs h s) ! i) = pcLive (pcHeap s ! i)
        \<and> pcPeer (pcHeap (attachLocalTracks env cs h s) ! i) = pcPeer (pcHeap s ! i))"
proof -
  from attachLocalTracks_frame[of env cs h s] obtain n where
    n: "pcHeap (attachLocalTracks env cs h s) = (pcHeap s)[h := (pcHeap s ! h)\<lparr>pcTracks := n\<rparr>]"
    by blast
  show ?thesis unfolding n using tracks_nth by simp
qed

text \<open>
  \<open>createPeerConnection\<close> of part_003 (lines 994-1005) on a peer that has an entry:
  the old connection is closed, the map holds the new one, and a registered state stays
  registered.
\<close>

lemma createPeerConnection_replaces:
  assumes reg: "registered s" and u: "user s \<noteq> None" and r: "roomId \<noteq> []"
    and old: "map_of (peerConnections s) p = Some old" and lt: "old < length (pcHeap s)"
  shows "registered (snd (createPeerConnection env cs p roomId initiator s))"
    and "\<not> pcLive (pcHeap (snd (createPeerConnection env cs p roomId initiator s)) ! old)"
    and "ctorOk env \<Longrightarrow>
         fst (createPeerConnection env cs p roomId initiator s) = Some (length (pcHeap s))
         \<and> map_of (peerConnections (snd (createPeerConnection env cs p roomId initiator s))) p
             = Some (length (pcHeap s))
         \<and> pcLive (pcHeap (snd (createPeerConnection env cs p roomId initiator s)) ! length (pcHeap s))
         \<and> pcPeer (pcHeap (snd (createPeerConnection env cs p roomId initiator s)) ! length (pcHeap s)) = p"
proof -
  let ?s1 = "s\<lparr>pcHeap := closeAt old (pcHeap s),
               peerConnections := AList.delete p (peerConnections s)\<rparr>"
  let ?h = "length (pcHeap s)"
  let ?s2 = "?s1\<lparr>pcHeap := pcHeap ?s1 @ [newPC p roomId initiator],
                 peerConnections := AList.update p ?h (peerConnections ?s1)\<rparr>"
  have c0: "\<not> ctorOk env \<Longrightarrow> snd (createPeerConnection env cs p roomId initiator s)
      = ?s1\<lparr>webRTCError := Some ''Failed to create peer connection. Please try again.''\<rparr>"
    using u r old by (auto simp add: createPeerConnection_def Let_def)
  have c1: "ctorOk env \<Longrightarrow> createPeerConnection env cs p roomId initiator s
      = (Some ?h, attachLocalTracks env cs ?h ?s2)"
    using u r old by (auto simp add: createPeerConnection_def Let_def)
  have live1: "\<And>i. i < length (pcHeap s) \<Longrightarrow> pcLive (closeAt old (pcHeap s) ! i) \<Longrightarrow>
      i \<noteq> old \<and> pcLive (pcHeap s ! i) \<and> pcPeer (pcHeap s ! i) \<noteq> p
      \<and> map_of (peerConnections s) (pcPeer (pcHeap s ! i)) = Some i"
  proof -
    fix i assume i: "i < length (pcHeap s)" and l: "pcLive (closeAt old (pcHeap s) ! i)"
    from i l have ne: "i \<noteq> old" by (auto simp add: closeAt_nth pcLive_def pcClose_def)
    with i l have li: "pcLive (pcHeap s ! i)" by (simp add: closeAt_nth)
    with reg i have m: "map_of (peerConnections s) (pcPeer (pcHeap s ! i)) = Some i"
      by (simp add: registered_def)
    with old ne have "pcPeer (pcHeap s ! i) \<noteq> p" by auto
    with ne li m show "i \<noteq> old \<and> pcLive (pcHeap s ! i) \<and> pcPeer (pcHeap s ! i) \<noteq> p
      \<and> map_of (peerConnections s) (pcPeer (pcHeap s ! i)) = Some i" by simp
  qed
  have peer1: "\<And>i. i < length (pcHeap s) \<Longrightarrow>
      pcPeer (closeAt old (pcHeap s) ! i) = pcPeer (pcHeap s ! i)"
    by (simp add: closeAt_nth pcClose_def)
  have reg1: "registered ?s1"
    unfolding registered_def using live1 peer1 by simp
  have closed1: "\<not> pcLive (closeAt old (pcHeap s) ! old)"
    using lt by (simp add: closeAt_nth pcLive_def pcClose_def)
  have reg2: "registered ?s2"
    unfolding registered_def
  proof (intro allI impI)
    fix i assume i: "i < length (pcHeap ?s2)" and l: "pcLive (pcHeap ?s2 ! i)"
    show "map_of (peerConnections ?s2) (pcPeer (pcHeap ?s2 ! i)) = Some i"
    proof (cases "i < length (pcHeap s)")
      case True
      with l have "pcLive (closeAt old (pcHeap s) ! i)" by (simp add: nth_append)
      from live1[OF True this] peer1[OF True] True show ?thesis
        by (simp add: nth_append AList.update_conv')
    next
      case False
      with i have "i = ?h" by simp
      then show ?thesis by (simp add: nth_append AList.update_conv' newPC_def)
    qed
  qed
  have regA: "\<And>h s. registered s \<Longrightarrow> registered (attachLocalTracks env cs h s)"
  proof -
    fix h s assume "registered s"
    then show "registered (attachLocalTracks env cs h s)"
      unfolding registered_def
      using attachLocalTracks_heap[of env cs h s] attachLocalTracks_frame[of env cs h s] by simp
  qed
  show "registered (snd (createPeerConnection env cs p roomId initiator s))"
  proof (cases "ctorOk env")
    case True
    with c1 regA[OF reg2] show ?thesis by simp
  next
    case False
    with c0 reg1 show ?thesis by (simp add: registered_def)
  qed
  show "\<not> pcLive (pcHeap (snd (createPeerConnection env cs p roomId initiator s)) ! old)"
  proof (cases "ctorOk env")
    case True
    from lt have "old < length (pcHeap ?s2)" by simp
    with attachLocalTracks_heap[of env cs ?h ?s2]
    have "pcLive (pcHeap (attachLocalTracks env cs ?h ?s2) ! old) = pcLive (pcHeap ?s2 ! old)"
      by blast
    with True c1 closed1 lt show ?thesis by (simp add: nth_append)
  next
    case False
    with c0 closed1 show ?thesis by simp
  qed
  show "ctorOk env \<Longrightarrow>
         fst (createPeerConnection env cs p roomId initiator s) = Some (length (pcHeap s))
         \<and> map_of (peerConnections (snd (createPeerConnection env cs p roomId initiator s))) p
             = Some (length (pcHeap s))
         \<and> pcLive (pcHeap (snd (createPeerConnection env cs p roomId initiator s)) ! length (pcHeap s))
         \<and> pcPeer (pcHeap (snd (createPeerConnection env cs p roomId initiator s)) ! length (pcHeap s)) = p"
  proof -
    assume ok: "ctorOk env"
    have "?h < length (pcHeap ?s2)" by simp
    with attachLocalTracks_heap[of env cs ?h ?s2]
    have "pcLive (pcHeap (attachLocalTracks env cs ?h ?s2) ! ?h) = pcLive (pcHeap ?s2 ! ?h)"
      "pcPeer (pcHeap (attachLocalTracks env cs ?h ?s2) ! ?h) = pcPeer (pcHeap ?s2 ! ?h)"
      by blast+
    with ok c1 attachLocalTracks_frame[of env cs ?h ?s2] show ?thesis
      by (simp add: nth_append AList.update_conv' newPC_def pcLive_def)
  qed
qed

text \<open>
  \<open>createPeerConnection\<close> of webrtc-context.tsx (lines 850-854) on a peer that has an
  entry returns without closing or replacing anything.
\<close>

lemma createPeerConnection_ctx_keeps:
  assumes "user s \<noteq> None" and "roomId \<noteq> []" and "map_of (peerConnections s) p \<noteq> None"
  shows "createPeerConnection_ctx env cs p roomId initiator s = (None, s)"
  using assms by (simp add: createPeerConnection_ctx_def)

text \<open>
  C2 fails on the retry timer of the offers listener (part_003 lines 1602-1635). alice
  handles bob's offer while \<open>createAnswer\<close> rejects, so her connection stays in
  \<open>have-remote-offer\<close>; two more deliveries of the offers snapshot each arm a timer that
  holds this connection. The first timer closes it and creates connection 1. The second
  timer finds its own connection closed (not stable), deletes the map entry of bob, which
  by now is connection 1, without closing it, and creates connection 2. Connections 1 and
  2 are both live and both lead to bob; the map knows only connection 2.
\<close>

theorem retry_timers_orphan_connection:
  "map signalingState (pcHeap twoTimers) = [HaveRemoteOffer]
   \<and> timers twoTimers = [(''bob'', ''offerOfBob'', 0), (''bob'', ''offerOfBob'', 0)]
   \<and> map pcPeer (pcHeap afterTimers) = [''bob'', ''bob'', ''bob'']
   \<and> map pcLive (pcHeap afterTimers) = [False, True, True]
   \<and> peerConnections afterTimers = [(''bob'', 2)]"
  by code_simp

lemma afterTimers_not_oneLivePerPeer: "\<not> oneLivePerPeer afterTimers"
proof
  assume "oneLivePerPeer afterTimers"
  then have a: "\<forall>i<length (pcHeap afterTimers). \<forall>j<length (pcHeap afterTimers).
      pcLive (pcHeap afterTimers ! i) \<and> pcLive (pcHeap afterTimers ! j)
      \<and> pcPeer (pcHeap afterTimers ! i) = pcPeer (pcHeap afterTimers ! j) \<longrightarrow> i = j"
    by (simp add: oneLivePerPeer_def)
  have h: "map pcPeer (pcHeap afterTimers) = [''bob'', ''bob'', ''bob'']"
    "map pcLive (pcHeap afterTimers) = [False, True, True]"
    by code_simp+
  then have l: "length (pcHeap afterTimers) = 3"
    "pcLive (pcHeap afterTimers ! 1)" "pcLive (pcHeap afterTimers ! 2)"
    "pcPeer (pcHeap afterTimers ! 1) = pcPeer (pcHeap afterTimers ! 2)"
    by (auto simp add: map_eq_Cons_conv)
  from a[rule_format, of 1 2] l show False by simp
qed

end
